theory Spec2Isabelle
  imports Complex_Main
begin

section \<open>Python values used by the SDK\<close>

text \<open>
  Python strings are \<^typ>\<open>string\<close>. Two attributes of the middleware, \<open>CLUSTER\<close> and
  \<open>SHARD\<close>, are compared with \<open>is not NULL_TAG_VAL\<close> (middleware.py, lines 261 and 267): an
  identity test against the one string object that the constants module binds to
  \<open>NULL_TAG_VAL\<close>. The strings that reach that test are therefore modelled with the one bit
  of identity the test reads: a string object is either that very object or another object
  with its own characters.
\<close>

datatype pystr =
    NullTagObj          \<comment> \<open>the object constants.NULL_TAG_VAL itself\<close>
  | PyStr string        \<comment> \<open>any other string object\<close>

datatype error = AttributeError string | Resolver404

text \<open>
  The module constants.py is not among the sources. Its string constants that the code
  reads are parameters of the model, except for the two metric prefixes.
\<close>

record constants =
  NULL_TAG_VAL :: string
  WAVEFRONT_PROVIDED_SOURCE :: string
  DJANGO_COMPONENT :: string
  APPLICATION_TAG_KEY :: string
  SERVICE_TAG_KEY :: string
  CLUSTER_TAG_KEY :: string
  SHARD_TAG_KEY :: string

text \<open>
  Modelled from the spec: \<open>REQUEST_PREFIX\<close> and \<open>RESPONSE_PREFIX\<close> of the missing
  constants.py. Section 4.2 of the specification gives them: the prefix is \<open>request\<close> for
  in-flight and error naming and \<open>response\<close> when a terminal status is known.
\<close>

definition REQUEST_PREFIX :: string where
  "REQUEST_PREFIX = ''request''"

definition RESPONSE_PREFIX :: string where
  "RESPONSE_PREFIX = ''response''"

text \<open>The characters of a string object, and Python's truth value of an optional string.\<close>

fun chars :: "constants \<Rightarrow> pystr \<Rightarrow> string" where
  "chars c NullTagObj = NULL_TAG_VAL c"
| "chars c (PyStr s) = s"

definition truthy :: "string option \<Rightarrow> bool" where
  "truthy x = (case x of None \<Rightarrow> False | Some s \<Rightarrow> s \<noteq> [])"

text \<open>The characters of an argument that has been found truthy (\<open>None\<close> is not).\<close>

definition str_of :: "string option \<Rightarrow> string" where
  "str_of x = (case x of None \<Rightarrow> [] | Some s \<Rightarrow> s)"

definition truthy_obj :: "constants \<Rightarrow> pystr option \<Rightarrow> bool" where
  "truthy_obj c x = (case x of None \<Rightarrow> False | Some s \<Rightarrow> chars c s \<noteq> [])"

text \<open>\<open>x or NULL_TAG_VAL\<close>: the object \<open>x\<close> when it is truthy, the constant's object otherwise.\<close>

definition or_null_tag :: "constants \<Rightarrow> pystr option \<Rightarrow> pystr" where
  "or_null_tag c x = (case x of None \<Rightarrow> NullTagObj
                      | Some s \<Rightarrow> if chars c s \<noteq> [] then s else NullTagObj)"

definition str_or_null_tag :: "constants \<Rightarrow> string \<Rightarrow> string" where
  "str_or_null_tag c s = (if s \<noteq> [] then s else NULL_TAG_VAL c)"

text \<open>\<open>str.replace\<close> with one-character arguments, \<open>str.lstrip\<close> and \<open>str.rstrip\<close> with a
  one-character set, \<open>str.join\<close>, and \<open>str\<close> of an integer.\<close>

definition str_replace :: "char \<Rightarrow> char \<Rightarrow> string \<Rightarrow> string" where
  "str_replace old new s = map (\<lambda>x. if x = old then new else x) s"

definition lstrip :: "char \<Rightarrow> string \<Rightarrow> string" where
  "lstrip d s = dropWhile (\<lambda>x. x = d) s"

definition rstrip :: "char \<Rightarrow> string \<Rightarrow> string" where
  "rstrip d s = rev (dropWhile (\<lambda>x. x = d) (rev s))"

fun join :: "string \<Rightarrow> string list \<Rightarrow> string" where
  "join sep [] = []"
| "join sep [x] = x"
| "join sep (x # y # ys) = x @ sep @ join sep (y # ys)"

definition digit_char :: "nat \<Rightarrow> char" where
  "digit_char d = char_of (48 + d)"

fun str_nat :: "nat \<Rightarrow> string" where
  "str_nat n = (if n < 10 then [digit_char n] else str_nat (n div 10) @ [digit_char (n mod 10)])"

declare str_nat.simps [simp del]

definition str_int :: "int \<Rightarrow> string" where
  "str_int i = (if i < 0 then CHR ''-'' # str_nat (nat (- i)) else str_nat (nat i))"

section \<open>application_tags.py\<close>

record ApplicationTags =
  application :: string
  service :: string
  cluster :: "pystr option"
  shard :: "pystr option"
  custom_tags :: "(string \<times> string) list option"

text \<open>
  The five properties of the class have getters only; the selectors of the record are
  these getters. The middleware checks its configuration against the class of the same
  name in the Wavefront SDK and reads the same four attributes from it; the one record
  stands for both classes.

  The constructor. An argument that is \<open>None\<close> or the empty string is falsy; the two
  checks raise \<open>AttributeError\<close> in the order of the source.
\<close>

definition ApplicationTags_init ::
  "string option \<Rightarrow> string option \<Rightarrow> pystr option \<Rightarrow> pystr option \<Rightarrow>
   (string \<times> string) list option \<Rightarrow> error + ApplicationTags" where
  "ApplicationTags_init application_arg service_arg cluster_arg shard_arg custom_tags_arg =
     (if \<not> truthy application_arg
      then Inl (AttributeError ''Missing \"application\" parameter in ApplicationTags!'')
      else if \<not> truthy service_arg
      then Inl (AttributeError ''Missing \"service\" parameter in ApplicationTags!'')
      else Inr \<lparr> application = str_of application_arg, service = str_of service_arg,
                 cluster = cluster_arg, shard = shard_arg,
                 custom_tags = custom_tags_arg \<rparr>)"

definition get_as_list :: "constants \<Rightarrow> ApplicationTags \<Rightarrow> (string \<times> string) list" where
  "get_as_list c self =
     [(APPLICATION_TAG_KEY c, application self),
      (SERVICE_TAG_KEY c, service self),
      (CLUSTER_TAG_KEY c, chars c (or_null_tag c (cluster self))),
      (SHARD_TAG_KEY c, chars c (or_null_tag c (shard self)))]"

section \<open>middleware.py: the request and the names\<close>

record ResolverMatch =
  url_name :: "string option"
  view_name :: string

record view =
  func_name :: string       \<comment> \<open>\<open>func.__name__\<close>\<close>
  func_module :: string     \<comment> \<open>\<open>func.__module__\<close>\<close>

record request =
  request_method :: string  \<comment> \<open>\<open>request.method\<close>\<close>
  path_info :: string
  absolute_uri :: string                   \<comment> \<open>what \<open>build_absolute_uri()\<close> returns\<close>
  resolver_match :: "ResolverMatch option"
  wf_timestamps :: "(real \<times> real) option"
    \<comment> \<open>\<open>wf_start_timestamp\<close> and \<open>wf_cpu_nanos\<close>, which \<open>process_view\<close> sets together;
        \<open>None\<close>: the attributes are not set\<close>
  has_span :: bool
    \<comment> \<open>whether the tracer holds a span for the request, that is, whether
        \<open>tracing.get_span(request)\<close> is not \<open>None\<close>\<close>

record response =
  status_code :: int

definition get_entity_name :: "request \<Rightarrow> string" where
  "get_entity_name req =
     (let entity_name =
        (case resolver_match req of
           Some rm \<Rightarrow>
             (let entity_name = (if truthy (url_name rm) then str_of (url_name rm)
                                 else view_name rm)
              in str_replace CHR ''}'' CHR ''_''
                   (str_replace CHR ''{'' CHR ''_''
                     (str_replace CHR ''/'' CHR ''.''
                       (str_replace CHR ''-'' CHR ''_'' entity_name))))
         | None \<Rightarrow> ''UNKNOWN'')
      in rstrip CHR ''.'' (lstrip CHR ''.'' entity_name))"

definition get_metric_name :: "string \<Rightarrow> request \<Rightarrow> response option \<Rightarrow> string" where
  "get_metric_name entity_name req resp =
     (let metric_name = [entity_name, request_method req] in
      case resp of
        Some r \<Rightarrow> join ''.'' (RESPONSE_PREFIX # metric_name @ [str_int (status_code r)])
      | None \<Rightarrow> join ''.'' (REQUEST_PREFIX # metric_name))"

definition get_metric_name_without_status :: "string \<Rightarrow> request \<Rightarrow> string" where
  "get_metric_name_without_status entity_name req =
     join ''.'' (REQUEST_PREFIX # [entity_name, request_method req])"

definition is_error_status_code :: "response \<Rightarrow> bool" where
  "is_error_status_code resp = (400 \<le> status_code resp \<and> status_code resp \<le> 599)"

type_synonym tags = "(string \<times> string) list"

text \<open>
  \<open>get_tags_map\<close> fills a dictionary in a fixed order of distinct keys; the association
  list holds the items in that order.
\<close>

definition get_tags_map ::
  "string option \<Rightarrow> string option \<Rightarrow> string option \<Rightarrow> string option \<Rightarrow>
   string option \<Rightarrow> string option \<Rightarrow> tags" where
  "get_tags_map cluster_arg service_arg shard_arg module_name func_name_arg source =
     (if truthy cluster_arg then [(''cluster'', str_of cluster_arg)] else []) @
     (if truthy service_arg then [(''service'', str_of service_arg)] else []) @
     (if truthy shard_arg then [(''shard'', str_of shard_arg)] else []) @
     (if truthy module_name then [(''django.resource.module'', str_of module_name)] else []) @
     (if truthy func_name_arg then [(''django.resource.func'', str_of func_name_arg)] else []) @
     (if truthy source then [(''source'', str_of source)] else [])"

section \<open>middleware.py: the registry and the calls made on it\<close>

text \<open>
  The registry, the reporter, the heartbeater and the tracer are objects of other packages.
  A hook is modelled by the calls it makes on them, in the order of the source; the
  registry is a state that these calls change. A gauge of a fresh registry reads NaN; the
  values \<open>update_gauge\<close> writes are Python integers.
\<close>

datatype gauge_value = NaN | Val int

record registry =
  gauges :: "string \<times> tags \<Rightarrow> gauge_value"
  counters :: "string \<times> tags \<Rightarrow> nat"
  delta_counters :: "string \<times> tags \<Rightarrow> nat"
  histograms :: "string \<times> tags \<Rightarrow> real list"

definition TaggedRegistry :: registry where
  "TaggedRegistry = \<lparr> gauges = (\<lambda>k. NaN), counters = (\<lambda>k. 0), delta_counters = (\<lambda>k. 0),
                       histograms = (\<lambda>k. []) \<rparr>"

definition update_gauge :: "registry \<Rightarrow> string \<Rightarrow> tags \<Rightarrow> int \<Rightarrow> registry" where
  "update_gauge reg key tgs val =
     (let cur_val = gauges reg (key, tgs);
          cur = (case cur_val of NaN \<Rightarrow> 0 | Val v \<Rightarrow> v)
      in reg \<lparr> gauges := (gauges reg) ((key, tgs) := Val (cur + val)) \<rparr>)"

datatype conf_value =
    PyNone
  | EnvStr string
  | PyList "string list"
  | ReporterObj
  | ApplicationTagsObj (the_tags: ApplicationTags)
  | DjangoTracingObj (trace_all: bool)
  | OtherObj

datatype effect =
    UpdateGauge string tags int       \<comment> \<open>\<open>update_gauge(registry, key, tags, val)\<close>\<close>
  | CounterInc string tags            \<comment> \<open>\<open>reg.counter(key, tags).inc()\<close>\<close>
  | DeltaCounterInc string tags       \<comment> \<open>\<open>delta_counter(reg, key, tags).inc()\<close>\<close>
  | HistogramAdd string tags real     \<comment> \<open>\<open>wavefront_histogram(reg, key, tags).add(v)\<close>\<close>
  | ApplyTracing view conf_value      \<comment> \<open>\<open>tracing._apply_tracing(request, view_func, attrs)\<close>\<close>
  | SpanSetTag string string          \<comment> \<open>\<open>span.set_tag(key, value)\<close>\<close>
  | FinishTracing                     \<comment> \<open>\<open>tracing._finish_tracing(request, response)\<close>\<close>

fun apply_effect :: "effect \<Rightarrow> registry \<Rightarrow> registry" where
  "apply_effect (UpdateGauge key tgs val) reg = update_gauge reg key tgs val"
| "apply_effect (CounterInc key tgs) reg =
     reg \<lparr> counters := (counters reg) ((key, tgs) := Suc (counters reg (key, tgs))) \<rparr>"
| "apply_effect (DeltaCounterInc key tgs) reg =
     reg \<lparr> delta_counters :=
             (delta_counters reg) ((key, tgs) := Suc (delta_counters reg (key, tgs))) \<rparr>"
| "apply_effect (HistogramAdd key tgs v) reg =
     reg \<lparr> histograms := (histograms reg) ((key, tgs) := histograms reg (key, tgs) @ [v]) \<rparr>"
| "apply_effect (ApplyTracing vf attrs) reg = reg"
| "apply_effect (SpanSetTag k v) reg = reg"
| "apply_effect FinishTracing reg = reg"

definition run_effects :: "effect list \<Rightarrow> registry \<Rightarrow> registry" where
  "run_effects es reg = fold apply_effect es reg"

section \<open>middleware.py: WavefrontMiddleware\<close>

record django_settings =
  settings_attr :: "string \<Rightarrow> conf_value option"   \<comment> \<open>the attributes of \<open>settings\<close>\<close>
  environ :: "string \<Rightarrow> string option"              \<comment> \<open>\<open>os.environ\<close>\<close>

definition get_conf :: "django_settings \<Rightarrow> string \<Rightarrow> conf_value" where
  "get_conf st key =
     (case settings_attr st key of
        Some v \<Rightarrow> v
      | None \<Rightarrow> (case environ st key of Some s \<Rightarrow> EnvStr s | None \<Rightarrow> PyNone))"

text \<open>The attributes that the last branch of \<open>__init__\<close> sets.\<close>

record attributes =
  application_tags :: ApplicationTags
  tracing_trace_all :: bool       \<comment> \<open>\<open>self.tracing._trace_all\<close>\<close>
  APPLICATION :: string
  CLUSTER :: pystr
  SERVICE :: string
  SHARD :: pystr

text \<open>
  \<open>MIDDLEWARE_ENABLED\<close> is set to true at the end of the branch of \<open>__init__\<close> that sets the
  attributes, and nowhere else; a middleware object is either not enabled, or enabled with
  its attributes.
\<close>

datatype WavefrontMiddleware = NotEnabled | Enabled (attrs: attributes)

definition MIDDLEWARE_ENABLED :: "WavefrontMiddleware \<Rightarrow> bool" where
  "MIDDLEWARE_ENABLED self = (case self of NotEnabled \<Rightarrow> False | Enabled a \<Rightarrow> True)"

definition is_WavefrontReporter :: "conf_value \<Rightarrow> bool" where
  "is_WavefrontReporter v = (case v of ReporterObj \<Rightarrow> True | _ \<Rightarrow> False)"

definition is_ApplicationTags :: "conf_value \<Rightarrow> bool" where
  "is_ApplicationTags v = (case v of ApplicationTagsObj t \<Rightarrow> True | _ \<Rightarrow> False)"

definition is_DjangoTracing :: "conf_value \<Rightarrow> bool" where
  "is_DjangoTracing v = (case v of DjangoTracingObj t \<Rightarrow> True | _ \<Rightarrow> False)"

definition make_attributes :: "constants \<Rightarrow> ApplicationTags \<Rightarrow> bool \<Rightarrow> attributes" where
  "make_attributes c tgs trace =
     \<lparr> application_tags = tgs,
       tracing_trace_all = trace,
       APPLICATION = str_or_null_tag c (application tgs),
       CLUSTER = or_null_tag c (cluster tgs),
       SERVICE = str_or_null_tag c (service tgs),
       SHARD = or_null_tag c (shard tgs) \<rparr>"

text \<open>
  \<open>__init__\<close> returns the middleware and the warnings it logs. Starting the reporter and
  the heartbeater and installing the tracer are calls into other packages.
\<close>

definition WavefrontMiddleware_init ::
  "constants \<Rightarrow> django_settings \<Rightarrow> WavefrontMiddleware \<times> string list" where
  "WavefrontMiddleware_init c st =
     (let reporter = get_conf st ''WF_REPORTER'';
          application_tags_conf = get_conf st ''APPLICATION_TAGS'';
          tracing = get_conf st ''OPENTRACING_TRACING'';
          not_enabled = ''Wavefront Django Middleware not enabled!''
      in if \<not> is_WavefrontReporter reporter
         then (NotEnabled, [''WF_REPORTER not correctly configured!'', not_enabled])
         else if \<not> is_ApplicationTags application_tags_conf
         then (NotEnabled, [''APPLICATION_TAGS not correctly configured!'', not_enabled])
         else if \<not> is_DjangoTracing tracing
         then (NotEnabled, [''OPENTRACING_TRACING not correctly configured!'', not_enabled])
         else (Enabled (make_attributes c (the_tags application_tags_conf) (trace_all tracing)),
               []))"

text \<open>
  \<open>process_view\<close>. \<open>resolve\<close> is Django's resolver for the URL configuration: it returns the
  view of a path, and for a path that matches no route it raises \<open>Resolver404\<close> (\<open>None\<close> here).
  \<open>now\<close> and \<open>cpu\<close> are the readings of \<open>default_timer()\<close> and \<open>time.clock()\<close>. The result is
  the request with its new attributes, the exception raised if any, and the calls made
  before it. \<open>self.tracing\<close> is an object without a truth value of its own, so
  \<open>if self.tracing\<close> holds. \<open>_apply_tracing\<close> starts a span, which the tracer keeps for the
  request; without that call the request has the span it had.
\<close>

definition process_view ::
  "constants \<Rightarrow> django_settings \<Rightarrow> (string \<Rightarrow> view option) \<Rightarrow> WavefrontMiddleware \<Rightarrow>
   request \<Rightarrow> view \<Rightarrow> real \<Rightarrow> real \<Rightarrow> request \<times> error option \<times> effect list" where
  "process_view c st resolve self req view_func now cpu =
     (if \<not> MIDDLEWARE_ENABLED self then (req, None, [])
      else
        let a = attrs self;
            req' = req \<lparr> wf_timestamps := Some (now, cpu) \<rparr>;
            entity_name = get_entity_name req'
        in case resolve (path_info req') of
             None \<Rightarrow> (req', Some Resolver404, [])
           | Some v \<Rightarrow>
               let func_name' = func_name v;
                   module_name = func_module v;
                   inflight =
                     [UpdateGauge (get_metric_name entity_name req' None @ ''.inflight'')
                        (get_tags_map None None None (Some module_name) (Some func_name') None)
                        1,
                      UpdateGauge ''total_requests.inflight''
                        (get_tags_map (Some (chars c (CLUSTER a))) (Some (SERVICE a))
                           (Some (chars c (SHARD a))) None None None) 1]
               in if \<not> tracing_trace_all a then (req', None, inflight)
                  else (req' \<lparr> has_span := True \<rparr>, None,
                        inflight @
                        [ApplyTracing view_func
                           (case settings_attr st ''OPENTRACING_TRACED_ATTRIBUTES'' of
                              Some t \<Rightarrow> t | None \<Rightarrow> PyList [])]))"

text \<open>The tag maps that \<open>process_response\<close> builds, under the names of its local variables.\<close>

definition complete_tags_map :: "constants \<Rightarrow> attributes \<Rightarrow> string \<Rightarrow> string \<Rightarrow> tags" where
  "complete_tags_map c a module_name func_name' =
     get_tags_map (Some (chars c (CLUSTER a))) (Some (SERVICE a)) (Some (chars c (SHARD a)))
       (Some module_name) (Some func_name') None"

definition aggregated_per_shard_map :: "constants \<Rightarrow> attributes \<Rightarrow> string \<Rightarrow> string \<Rightarrow> tags" where
  "aggregated_per_shard_map c a module_name func_name' =
     get_tags_map (Some (chars c (CLUSTER a))) (Some (SERVICE a)) (Some (chars c (SHARD a)))
       (Some module_name) (Some func_name') (Some (WAVEFRONT_PROVIDED_SOURCE c))"

definition overall_aggregated_per_source_map :: "constants \<Rightarrow> attributes \<Rightarrow> tags" where
  "overall_aggregated_per_source_map c a =
     get_tags_map (Some (chars c (CLUSTER a))) (Some (SERVICE a)) (Some (chars c (SHARD a)))
       None None None"

definition overall_aggregated_per_shard_map :: "constants \<Rightarrow> attributes \<Rightarrow> tags" where
  "overall_aggregated_per_shard_map c a =
     get_tags_map (Some (chars c (CLUSTER a))) (Some (SERVICE a)) (Some (chars c (SHARD a)))
       None None (Some (WAVEFRONT_PROVIDED_SOURCE c))"

definition aggregated_per_service_map :: "constants \<Rightarrow> attributes \<Rightarrow> string \<Rightarrow> string \<Rightarrow> tags" where
  "aggregated_per_service_map c a module_name func_name' =
     get_tags_map (Some (chars c (CLUSTER a))) (Some (SERVICE a)) None
       (Some module_name) (Some func_name') (Some (WAVEFRONT_PROVIDED_SOURCE c))"

definition overall_aggregated_per_service_map :: "constants \<Rightarrow> attributes \<Rightarrow> tags" where
  "overall_aggregated_per_service_map c a =
     get_tags_map (Some (chars c (CLUSTER a))) (Some (SERVICE a)) None
       None None (Some (WAVEFRONT_PROVIDED_SOURCE c))"

definition aggregated_per_cluster_map :: "constants \<Rightarrow> attributes \<Rightarrow> string \<Rightarrow> string \<Rightarrow> tags" where
  "aggregated_per_cluster_map c a module_name func_name' =
     get_tags_map (Some (chars c (CLUSTER a))) None None
       (Some module_name) (Some func_name') (Some (WAVEFRONT_PROVIDED_SOURCE c))"

definition overall_aggregated_per_cluster_map :: "constants \<Rightarrow> attributes \<Rightarrow> tags" where
  "overall_aggregated_per_cluster_map c a =
     get_tags_map (Some (chars c (CLUSTER a))) None None
       None None (Some (WAVEFRONT_PROVIDED_SOURCE c))"

definition aggregated_per_application_map :: "constants \<Rightarrow> string \<Rightarrow> string \<Rightarrow> tags" where
  "aggregated_per_application_map c module_name func_name' =
     get_tags_map None None None
       (Some module_name) (Some func_name') (Some (WAVEFRONT_PROVIDED_SOURCE c))"

definition overall_aggregated_per_application_map :: "constants \<Rightarrow> tags" where
  "overall_aggregated_per_application_map c =
     get_tags_map None None None None None (Some (WAVEFRONT_PROVIDED_SOURCE c))"

text \<open>
  \<open>process_response\<close>: the response, which it returns as it got it, or the exception it
  raises, and the calls made. \<open>now\<close> and \<open>cpu\<close> are the readings of the two clocks at the
  end of the request. Two calls of lines 111 to 116 raise before any call on the registry:
  \<open>resolve\<close> raises \<open>Resolver404\<close> for a path that matches no route, and \<open>span.set_tag\<close> raises
  \<open>AttributeError\<close> when \<open>get_span\<close> returns \<open>None\<close>, that is, when the tracer holds no span for
  the request.
\<close>

definition process_response ::
  "constants \<Rightarrow> (string \<Rightarrow> view option) \<Rightarrow> WavefrontMiddleware \<Rightarrow> request \<Rightarrow> response \<Rightarrow>
   real \<Rightarrow> real \<Rightarrow> (error + response) \<times> effect list" where
  "process_response c resolve self req resp now cpu =
     (if \<not> MIDDLEWARE_ENABLED self then (Inr resp, [])
      else
        let a = attrs self;
            entity_name = get_entity_name req
        in case resolve (path_info req) of
             None \<Rightarrow> (Inl Resolver404, [])
           | Some v \<Rightarrow>
        let func_name' = func_name v;
            module_name = func_module v;
            response_metric_key = get_metric_name entity_name req (Some resp);
            complete = complete_tags_map c a module_name func_name'
        in if \<not> has_span req
           then (Inl (AttributeError ''NoneType object has no attribute set_tag''), [])
           else (Inr resp,
              [SpanSetTag ''http.status_code'' (str_int (status_code resp))] @
              (if is_error_status_code resp then [SpanSetTag ''error'' ''true''] else []) @
              [SpanSetTag ''span.kind'' ''server'',
               SpanSetTag ''django.resource.module'' module_name,
               SpanSetTag ''django.resource.func'' func_name',
               SpanSetTag ''component'' (DJANGO_COMPONENT c),
               SpanSetTag ''http.method'' (request_method req),
               SpanSetTag ''http.url'' (absolute_uri req),
               FinishTracing] @
              [UpdateGauge (get_metric_name entity_name req None @ ''.inflight'')
                 (get_tags_map None None None (Some module_name) (Some func_name') None) (- 1),
               UpdateGauge ''total_requests.inflight''
                 (get_tags_map (Some (chars c (CLUSTER a))) (Some (SERVICE a))
                    (Some (chars c (SHARD a))) None None None) (- 1)] @
              [CounterInc (response_metric_key @ ''.cumulative'') complete] @
              (if truthy_obj c (shard (application_tags a))
               then [DeltaCounterInc (response_metric_key @ ''.aggregated_per_shard'')
                       (aggregated_per_shard_map c a module_name func_name')]
               else []) @
              [DeltaCounterInc (response_metric_key @ ''.aggregated_per_service'')
                 (aggregated_per_service_map c a module_name func_name')] @
              (if truthy_obj c (cluster (application_tags a))
               then [DeltaCounterInc (response_metric_key @ ''.aggregated_per_cluster'')
                       (aggregated_per_cluster_map c a module_name func_name')]
               else []) @
              [DeltaCounterInc (response_metric_key @ ''.aggregated_per_application'')
                 (aggregated_per_application_map c module_name func_name')] @
              (if is_error_status_code resp
               then [CounterInc (get_metric_name_without_status entity_name req) complete,
                     CounterInc ''response.errors'' complete,
                     CounterInc ''response.errors.aggregated_per_source''
                       (overall_aggregated_per_source_map c a)] @
                    (if truthy_obj c (shard (application_tags a))
                     then [DeltaCounterInc ''response.errors.aggregated_per_shard''
                             (overall_aggregated_per_shard_map c a)]
                     else []) @
                    [DeltaCounterInc ''response.errors.aggregated_per_service''
                       (overall_aggregated_per_service_map c a)] @
                    (if truthy_obj c (cluster (application_tags a))
                     then [DeltaCounterInc ''response.errors.aggregated_per_cluster''
                             (overall_aggregated_per_cluster_map c a)]
                     else []) @
                    [DeltaCounterInc ''response.errors.aggregated_per_application''
                       (overall_aggregated_per_application_map c)]
               else []) @
              [CounterInc ''response.completed.aggregated_per_source''
                 (overall_aggregated_per_source_map c a)] @
              (if SHARD a \<noteq> NullTagObj
               then [DeltaCounterInc ''response.completed.aggregated_per_shard''
                       (overall_aggregated_per_shard_map c a),
                     CounterInc ''response.completed.aggregated_per_service''
                       (overall_aggregated_per_service_map c a)]
               else []) @
              (if CLUSTER a \<noteq> NullTagObj
               then [DeltaCounterInc ''response.completed.aggregated_per_cluster''
                       (overall_aggregated_per_cluster_map c a),
                     CounterInc ''response.completed.aggregated_per_application''
                       (overall_aggregated_per_application_map c)]
               else []) @
              (case wf_timestamps req of
                 Some (start_timestamp, cpu_nanos) \<Rightarrow>
                   [HistogramAdd (response_metric_key @ ''.latency'') complete
                      (now - start_timestamp),
                    HistogramAdd (response_metric_key @ ''.cpu_ns'') complete (cpu - cpu_nanos)]
               | None \<Rightarrow> [])))"

section \<open>Reading the calls\<close>

text \<open>The names of the cumulative counters and of the delta counters that a list of calls
  increments, the gauge updates among them, and the sum of the updates of one gauge.\<close>

fun counter_names :: "effect list \<Rightarrow> string list" where
  "counter_names [] = []"
| "counter_names (CounterInc key tgs # es) = key # counter_names es"
| "counter_names (e # es) = counter_names es"

fun delta_counter_names :: "effect list \<Rightarrow> string list" where
  "delta_counter_names [] = []"
| "delta_counter_names (DeltaCounterInc key tgs # es) = key # delta_counter_names es"
| "delta_counter_names (e # es) = delta_counter_names es"

fun gauge_updates :: "effect list \<Rightarrow> (string \<times> tags \<times> int) list" where
  "gauge_updates [] = []"
| "gauge_updates (UpdateGauge key tgs val # es) = (key, tgs, val) # gauge_updates es"
| "gauge_updates (e # es) = gauge_updates es"

definition gauge_reading :: "gauge_value \<Rightarrow> int" where
  "gauge_reading v = (case v of NaN \<Rightarrow> 0 | Val i \<Rightarrow> i)"

definition dots :: "string \<Rightarrow> nat" where
  "dots s = length (filter (\<lambda>x. x = CHR ''.'') s)"

text \<open>The sum of the updates that a list of calls makes to the gauge \<open>k\<close>.\<close>

fun gauge_delta :: "string \<times> tags \<Rightarrow> effect list \<Rightarrow> int" where
  "gauge_delta k [] = 0"
| "gauge_delta k (UpdateGauge key tgs val # es) =
     (if k = (key, tgs) then val else 0) + gauge_delta k es"
| "gauge_delta k (e # es) = gauge_delta k es"

section \<open>The character map of entity names\<close>

text \<open>The map that the specification describes: hyphens to underscore, slashes to dot,
  braces to underscore. It is compared with the chain of \<open>replace\<close> calls below.\<close>

definition sanitize_char :: "char \<Rightarrow> char" where
  "sanitize_char x =
     (if x = CHR ''-'' then CHR ''_'' else if x = CHR ''/'' then CHR ''.''
      else if x = CHR ''{'' then CHR ''_'' else if x = CHR ''}'' then CHR ''_'' else x)"

section \<open>Example inputs\<close>

text \<open>
  The scenario of the specification: the route \<open>/make/{style_id}\<close> resolved as \<open>make\<close>,
  method GET, application \<open>beachshirts\<close>, service \<open>styling\<close>, no cluster and no shard. The
  values of the constants are examples; the sentinel is any non-empty string.
\<close>

definition example_constants :: constants where
  "example_constants =
     \<lparr> NULL_TAG_VAL = ''none'', WAVEFRONT_PROVIDED_SOURCE = ''wavefront-provided'',
       DJANGO_COMPONENT = ''django'', APPLICATION_TAG_KEY = ''application'',
       SERVICE_TAG_KEY = ''service'', CLUSTER_TAG_KEY = ''cluster'',
       SHARD_TAG_KEY = ''shard'' \<rparr>"

definition beachshirts_tags :: ApplicationTags where
  "beachshirts_tags =
     \<lparr> application = ''beachshirts'', service = ''styling'', cluster = None, shard = None,
       custom_tags = None \<rparr>"

definition make_request :: request where
  "make_request =
     \<lparr> request_method = ''GET'', path_info = ''/make/7'', absolute_uri = ''http://shop/make/7'',
       resolver_match = Some \<lparr> url_name = Some ''make'', view_name = ''make'' \<rparr>,
       wf_timestamps = None, has_span = False \<rparr>"

definition example_resolve :: "string \<Rightarrow> view option" where
  "example_resolve p =
     (if p = ''/make/7'' then Some \<lparr> func_name = ''make'', func_module = ''shop.views'' \<rparr>
      else None)"

definition make_view :: view where
  "make_view = \<lparr> func_name = ''make'', func_module = ''shop.views'' \<rparr>"

text \<open>The request as \<open>process_view\<close> leaves it when \<open>_trace_all\<close> is true: the two clock
  readings are set and the tracer holds a span.\<close>

definition traced_request :: request where
  "traced_request = make_request \<lparr> wf_timestamps := Some (5, 7), has_span := True \<rparr>"

text \<open>A request for a path that matches no route.\<close>

definition lost_request :: request where
  "lost_request = make_request \<lparr> path_info := ''/nothing'', resolver_match := None \<rparr>"

definition no_settings :: django_settings where
  "no_settings = \<lparr> settings_attr = (\<lambda>k. None), environ = (\<lambda>k. None) \<rparr>"

definition style_match :: ResolverMatch where
  "style_match = \<lparr> url_name = Some ''/style/{id}/make-it/'', view_name = ''shop:style'' \<rparr>"

definition style_request :: request where
  "style_request = make_request \<lparr> resolver_match := Some style_match \<rparr>"

definition unnamed_match :: ResolverMatch where
  "unnamed_match = \<lparr> url_name = Some [], view_name = ''shop.views.make-view'' \<rparr>"

definition unnamed_request :: request where
  "unnamed_request = make_request \<lparr> resolver_match := Some unnamed_match \<rparr>"

definition unmatched_request :: request where
  "unmatched_request = make_request \<lparr> resolver_match := None \<rparr>"

text \<open>Tags with an empty shard, tags with an empty cluster, and tags whose cluster is the
  sentinel object itself.\<close>

definition empty_shard_tags :: ApplicationTags where
  "empty_shard_tags = beachshirts_tags \<lparr> shard := Some (PyStr []) \<rparr>"

definition empty_cluster_tags :: ApplicationTags where
  "empty_cluster_tags = beachshirts_tags \<lparr> cluster := Some (PyStr []) \<rparr>"

definition blue_tags :: ApplicationTags where
  "blue_tags = beachshirts_tags \<lparr> cluster := Some NullTagObj, shard := Some (PyStr ''blue'') \<rparr>"

section \<open>Entity names\<close>

lemma replace_chain:
  "str_replace CHR ''}'' CHR ''_'' (str_replace CHR ''{'' CHR ''_''
     (str_replace CHR ''/'' CHR ''.'' (str_replace CHR ''-'' CHR ''_'' s))) = map sanitize_char s"
  by (induction s) (simp_all add: str_replace_def sanitize_char_def)

lemma sanitize_char_idem: "sanitize_char (sanitize_char x) = sanitize_char x"
  by (simp add: sanitize_char_def)

lemma lstrip_rstrip_subset: "set (rstrip d (lstrip d s)) \<subseteq> set s"
proof -
  have "set (rstrip d (lstrip d s)) \<subseteq> set (lstrip d s)"
    unfolding rstrip_def using set_dropWhileD by fastforce
  also have "\<dots> \<subseteq> set s"
    unfolding lstrip_def using set_dropWhileD by fastforce
  finally show ?thesis .
qed

lemma rstrip_idem: "rstrip d (rstrip d s) = rstrip d s"
  by (simp add: rstrip_def)

lemma lstrip_rstrip_lstrip: "lstrip d (rstrip d (lstrip d s)) = rstrip d (lstrip d s)"
proof (cases "lstrip d s")
  case Nil
  then have "rstrip d (lstrip d s) = []" by (simp add: rstrip_def)
  then show ?thesis by (simp add: lstrip_def)
next
  case (Cons x xs)
  have x: "x \<noteq> d"
    using Cons hd_dropWhile [of "\<lambda>x. x = d" s] by (auto simp: lstrip_def)
  have "rev (x # xs) = rev xs @ [x]" by simp
  then have "dropWhile (\<lambda>y. y = d) (rev (x # xs)) = dropWhile (\<lambda>y. y = d) (rev xs) @ [x]"
    using x by (simp add: dropWhile_append3)
  then have "rstrip d (x # xs) = x # rev (dropWhile (\<lambda>y. y = d) (rev xs))"
    by (simp add: rstrip_def)
  then show ?thesis using x Cons by (simp add: lstrip_def)
qed

lemma strip_idem:
  "rstrip d (lstrip d (rstrip d (lstrip d s))) = rstrip d (lstrip d s)"
  by (simp add: lstrip_rstrip_lstrip rstrip_idem)

lemma sanitized_fixed:
  "map sanitize_char (rstrip d (lstrip d (map sanitize_char s))) =
   rstrip d (lstrip d (map sanitize_char s))"
proof (rule map_idI)
  fix x assume "x \<in> set (rstrip d (lstrip d (map sanitize_char s)))"
  then have "x \<in> set (map sanitize_char s)"
    using lstrip_rstrip_subset by blast
  then show "sanitize_char x = x"
    by (auto simp: sanitize_char_idem)
qed

lemma entity_name_of_match:
  "resolver_match req = Some rm \<Longrightarrow>
   get_entity_name req =
     rstrip CHR ''.'' (lstrip CHR ''.''
       (map sanitize_char (if truthy (url_name rm) then str_of (url_name rm) else view_name rm)))"
  by (simp add: get_entity_name_def replace_chain Let_def)

lemma entity_name_no_match:
  "resolver_match req = None \<Longrightarrow> get_entity_name req = ''UNKNOWN''"
  by (simp add: get_entity_name_def rstrip_def lstrip_def)

lemma sanitize_char_range:
  "sanitize_char x \<notin> {CHR ''-'', CHR ''/'', CHR ''{'', CHR ''}''}"
  by (simp add: sanitize_char_def)

lemma lstrip_hd: "lstrip d s \<noteq> [] \<Longrightarrow> hd (lstrip d s) \<noteq> d"
  using hd_dropWhile [of "\<lambda>x. x = d" s] by (simp add: lstrip_def)

lemma rstrip_last: "rstrip d s \<noteq> [] \<Longrightarrow> last (rstrip d s) \<noteq> d"
  using hd_dropWhile [of "\<lambda>x. x = d" "rev s"] by (simp add: rstrip_def last_rev)

lemma strip_hd: "rstrip d (lstrip d s) \<noteq> [] \<Longrightarrow> hd (rstrip d (lstrip d s)) \<noteq> d"
  using lstrip_hd [of d "rstrip d (lstrip d s)"] by (simp add: lstrip_rstrip_lstrip)

text \<open>
  Claim C7. For a request with a route match, \<open>get_entity_name\<close> maps every hyphen to an
  underscore, every slash to a dot and every brace to an underscore in the route's name,
  and then strips the leading and the trailing dots: none of the four characters is left
  and the name neither starts nor ends with a dot. Sanitizing is idempotent: a request
  whose route is named by an entity name gets that same entity name.
\<close>

theorem get_entity_name_sanitizes:
  assumes "resolver_match req = Some rm"
  shows "get_entity_name req =
           rstrip CHR ''.'' (lstrip CHR ''.''
             (map sanitize_char
                (if truthy (url_name rm) then str_of (url_name rm) else view_name rm)))
       \<and> set (get_entity_name req) \<inter> {CHR ''-'', CHR ''/'', CHR ''{'', CHR ''}''} = {}
       \<and> (get_entity_name req \<noteq> [] \<longrightarrow>
            hd (get_entity_name req) \<noteq> CHR ''.'' \<and> last (get_entity_name req) \<noteq> CHR ''.'')
       \<and> get_entity_name
            (req \<lparr> resolver_match :=
                     Some \<lparr> url_name = None, view_name = get_entity_name req \<rparr> \<rparr>)
          = get_entity_name req
       \<and> (get_entity_name req \<noteq> [] \<longrightarrow>
            get_entity_name
              (req \<lparr> resolver_match := Some (rm \<lparr> url_name := Some (get_entity_name req) \<rparr>) \<rparr>)
            = get_entity_name req)"
proof -
  let ?n = "if truthy (url_name rm) then str_of (url_name rm) else view_name rm"
  let ?e = "rstrip CHR ''.'' (lstrip CHR ''.'' (map sanitize_char ?n))"
  have e: "get_entity_name req = ?e"
    using assms by (rule entity_name_of_match)
  have "set ?e \<subseteq> set (map sanitize_char ?n)"
    by (rule lstrip_rstrip_subset)
  then have none_left: "set ?e \<inter> {CHR ''-'', CHR ''/'', CHR ''{'', CHR ''}''} = {}"
    using sanitize_char_range by fastforce
  have ends: "?e \<noteq> [] \<longrightarrow> hd ?e \<noteq> CHR ''.'' \<and> last ?e \<noteq> CHR ''.''"
    using strip_hd rstrip_last by blast
  have again: "rstrip CHR ''.'' (lstrip CHR ''.'' (map sanitize_char ?e)) = ?e"
    by (simp only: sanitized_fixed strip_idem)
  have by_view_name: "get_entity_name
      (req \<lparr> resolver_match := Some \<lparr> url_name = None, view_name = ?e \<rparr> \<rparr>) = ?e"
    using again by (simp add: entity_name_of_match truthy_def)
  have by_url_name: "?e \<noteq> [] \<longrightarrow> get_entity_name
      (req \<lparr> resolver_match := Some (rm \<lparr> url_name := Some ?e \<rparr>) \<rparr>) = ?e"
    using again by (simp add: entity_name_of_match truthy_def str_of_def)
  show ?thesis
    unfolding e using none_left ends by_view_name by_url_name by blast
qed

theorem get_entity_name_sanitizes_witness:
  "resolver_match style_request = Some style_match
   \<and> get_entity_name style_request = ''style._id_.make_it''
   \<and> get_entity_name
       (style_request \<lparr> resolver_match :=
          Some \<lparr> url_name = None, view_name = get_entity_name style_request \<rparr> \<rparr>)
     = ''style._id_.make_it''"
proof -
  have h: "resolver_match style_request = Some style_match"
    by (simp add: style_request_def)
  have v: "rstrip CHR ''.'' (lstrip CHR ''.''
             (map sanitize_char
                (if truthy (url_name style_match) then str_of (url_name style_match)
                 else view_name style_match))) = ''style._id_.make_it''"
    by (simp add: style_match_def truthy_def str_of_def sanitize_char_def rstrip_def
        lstrip_def)
  note t = get_entity_name_sanitizes [OF h]
  have e: "get_entity_name style_request = ''style._id_.make_it''"
    using t v by simp
  have i: "get_entity_name
       (style_request \<lparr> resolver_match :=
          Some \<lparr> url_name = None, view_name = get_entity_name style_request \<rparr> \<rparr>)
     = get_entity_name style_request"
    using t by blast
  show ?thesis
    using h i by (simp add: e)
qed

text \<open>
  Claim C10. For a request with a route match whose \<open>url_name\<close> is empty or \<open>None\<close>, the
  entity name is the sanitized \<open>view_name\<close>; with a non-empty \<open>url_name\<close> it is the
  sanitized \<open>url_name\<close>; the sentinel \<open>UNKNOWN\<close> is the name of a request without a route
  match, and of no other branch.
\<close>

theorem entity_name_from_view_name:
  "(resolver_match req = Some rm \<and> (url_name rm = None \<or> url_name rm = Some []) \<longrightarrow>
      get_entity_name req =
        rstrip CHR ''.'' (lstrip CHR ''.'' (map sanitize_char (view_name rm))))
   \<and> (resolver_match req = Some rm \<and> url_name rm = Some n \<and> n \<noteq> [] \<longrightarrow>
      get_entity_name req = rstrip CHR ''.'' (lstrip CHR ''.'' (map sanitize_char n)))
   \<and> (resolver_match req = None \<longrightarrow> get_entity_name req = ''UNKNOWN'')"
  by (auto simp: entity_name_of_match entity_name_no_match truthy_def str_of_def)

theorem entity_name_from_view_name_witness:
  "get_entity_name unnamed_request = ''shop.views.make_view''
   \<and> get_entity_name make_request = ''make''
   \<and> get_entity_name unmatched_request = ''UNKNOWN''"
proof -
  have 1: "resolver_match unnamed_request = Some unnamed_match
           \<and> (url_name unnamed_match = None \<or> url_name unnamed_match = Some [])"
    by (simp add: unnamed_request_def unnamed_match_def)
  have 2: "resolver_match make_request = Some \<lparr> url_name = Some ''make'', view_name = ''make'' \<rparr>
           \<and> url_name \<lparr> url_name = Some ''make'', view_name = ''make'' \<rparr> = Some ''make''
           \<and> ''make'' \<noteq> []"
    by (simp add: make_request_def)
  have 3: "resolver_match unmatched_request = None"
    by (simp add: unmatched_request_def)
  have v1: "rstrip CHR ''.'' (lstrip CHR ''.'' (map sanitize_char (view_name unnamed_match)))
            = ''shop.views.make_view''"
    by (simp add: unnamed_match_def sanitize_char_def rstrip_def lstrip_def)
  have v2: "rstrip CHR ''.'' (lstrip CHR ''.'' (map sanitize_char ''make'')) = ''make''"
    by (simp add: sanitize_char_def rstrip_def lstrip_def)
  show ?thesis
    using 1 2 3 v1 v2
      entity_name_from_view_name [of unnamed_request unnamed_match "[]"]
      entity_name_from_view_name [of make_request
        "\<lparr> url_name = Some ''make'', view_name = ''make'' \<rparr>" "''make''"]
      entity_name_from_view_name [of unmatched_request unnamed_match "[]"]
    by simp
qed

section \<open>Constructing the application tags\<close>

text \<open>
  Claim C8. The constructor of \<open>ApplicationTags\<close> raises \<open>AttributeError\<close> exactly when the
  application or the service argument is \<open>None\<close> or empty. With both non-empty it returns
  an object whose application, service, cluster, shard and custom tags are the arguments;
  the object is a value that the getters read and nothing changes.
\<close>

theorem ApplicationTags_init_checks:
  "(\<exists>msg. ApplicationTags_init app svc cl sh ct = Inl (AttributeError msg))
     = (app = None \<or> app = Some [] \<or> svc = None \<or> svc = Some [])
   \<and> (\<forall>a s. app = Some a \<and> a \<noteq> [] \<and> svc = Some s \<and> s \<noteq> [] \<longrightarrow>
        (\<exists>t. ApplicationTags_init app svc cl sh ct = Inr t \<and> application t = a \<and>
             service t = s \<and> cluster t = cl \<and> shard t = sh \<and> custom_tags t = ct))"
  by (auto simp: ApplicationTags_init_def truthy_def str_of_def split: option.splits)

theorem ApplicationTags_init_checks_witness:
  "(\<exists>t. ApplicationTags_init (Some ''beachshirts'') (Some ''styling'')
           (Some (PyStr ''us-west'')) None None = Inr t
        \<and> application t = ''beachshirts'' \<and> service t = ''styling''
        \<and> cluster t = Some (PyStr ''us-west'') \<and> shard t = None \<and> custom_tags t = None)
   \<and> (\<exists>msg. ApplicationTags_init (Some ''beachshirts'') None None None None
               = Inl (AttributeError msg))
   \<and> (\<exists>msg. ApplicationTags_init (Some []) (Some ''styling'') None None None
               = Inl (AttributeError msg))"
  using
    ApplicationTags_init_checks [of "Some ''beachshirts''" "Some ''styling''"
      "Some (PyStr ''us-west'')" None None]
    ApplicationTags_init_checks [of "Some ''beachshirts''" None None None None]
    ApplicationTags_init_checks [of "Some []" "Some ''styling''" None None None]
  by simp

section \<open>The middleware that is not enabled\<close>

text \<open>
  Claim C9. When the reporter, the application tags or the tracing object is missing from
  the configuration or is not of its class, \<open>__init__\<close> leaves the middleware not enabled,
  and then both hooks do nothing: \<open>process_view\<close> returns the request as it is with no call
  made, \<open>process_response\<close> returns the response as it is with no call made, and the
  registry is unchanged; neither hook raises. The hooks do not change the middleware, so it
  stays that way.
\<close>

theorem not_enabled_hooks_do_nothing:
  assumes "\<not> is_WavefrontReporter (get_conf st ''WF_REPORTER'')
         \<or> \<not> is_ApplicationTags (get_conf st ''APPLICATION_TAGS'')
         \<or> \<not> is_DjangoTracing (get_conf st ''OPENTRACING_TRACING'')"
  shows "\<not> MIDDLEWARE_ENABLED (fst (WavefrontMiddleware_init c st))
       \<and> process_view c st resolve (fst (WavefrontMiddleware_init c st)) req vf now cpu
           = (req, None, [])
       \<and> process_response c resolve (fst (WavefrontMiddleware_init c st)) req resp now cpu
           = (Inr resp, [])
       \<and> run_effects
           (snd (snd (process_view c st resolve (fst (WavefrontMiddleware_init c st)) req vf
                        now cpu))
            @ snd (process_response c resolve (fst (WavefrontMiddleware_init c st)) req resp
                     now cpu)) reg = reg"
proof -
  have off: "fst (WavefrontMiddleware_init c st) = NotEnabled"
    using assms by (auto simp: WavefrontMiddleware_init_def Let_def)
  show ?thesis
    by (simp add: off MIDDLEWARE_ENABLED_def process_view_def process_response_def
        run_effects_def)
qed

theorem not_enabled_hooks_do_nothing_witness:
  "\<not> is_WavefrontReporter (get_conf no_settings ''WF_REPORTER'')
   \<and> \<not> MIDDLEWARE_ENABLED (fst (WavefrontMiddleware_init example_constants no_settings))
   \<and> process_view example_constants no_settings example_resolve
       (fst (WavefrontMiddleware_init example_constants no_settings)) make_request
       make_view 5 7 = (make_request, None, [])
   \<and> process_response example_constants example_resolve
       (fst (WavefrontMiddleware_init example_constants no_settings)) make_request
       \<lparr> status_code = 503 \<rparr> 5 7 = (Inr \<lparr> status_code = 503 \<rparr>, [])"
proof -
  have h: "\<not> is_WavefrontReporter (get_conf no_settings ''WF_REPORTER'')"
    by (simp add: get_conf_def no_settings_def is_WavefrontReporter_def)
  then have "\<not> is_WavefrontReporter (get_conf no_settings ''WF_REPORTER'')
         \<or> \<not> is_ApplicationTags (get_conf no_settings ''APPLICATION_TAGS'')
         \<or> \<not> is_DjangoTracing (get_conf no_settings ''OPENTRACING_TRACING'')"
    by simp
  from not_enabled_hooks_do_nothing [OF this, where c = example_constants
      and resolve = example_resolve and req = make_request
      and vf = make_view and now = 5 and cpu = 7
      and resp = "\<lparr> status_code = 503 \<rparr>"] h
  show ?thesis by simp
qed

section \<open>The calls of the two hooks\<close>

lemma counter_names_append: "counter_names (xs @ ys) = counter_names xs @ counter_names ys"
  by (induction xs rule: counter_names.induct) simp_all

lemma delta_counter_names_append:
  "delta_counter_names (xs @ ys) = delta_counter_names xs @ delta_counter_names ys"
  by (induction xs rule: delta_counter_names.induct) simp_all

lemma gauge_updates_append: "gauge_updates (xs @ ys) = gauge_updates xs @ gauge_updates ys"
  by (induction xs rule: gauge_updates.induct) simp_all

lemma process_response_unmatched:
  "resolve (path_info req) = None \<Longrightarrow>
   process_response c resolve (Enabled a) req resp now cpu = (Inl Resolver404, [])"
  by (simp add: process_response_def MIDDLEWARE_ENABLED_def Let_def)

lemma process_response_no_span:
  "resolve (path_info req) = Some v \<Longrightarrow> \<not> has_span req \<Longrightarrow>
   process_response c resolve (Enabled a) req resp now cpu
     = (Inl (AttributeError ''NoneType object has no attribute set_tag''), [])"
  by (simp add: process_response_def MIDDLEWARE_ENABLED_def Let_def)

lemma process_response_returns:
  "resolve (path_info req) = Some v \<Longrightarrow> has_span req \<Longrightarrow>
   fst (process_response c resolve (Enabled a) req resp now cpu) = Inr resp"
  by (simp add: process_response_def MIDDLEWARE_ENABLED_def Let_def)

lemma counter_names_process_response:
  "resolve (path_info req) = Some v \<Longrightarrow> has_span req \<Longrightarrow>
   counter_names (snd (process_response c resolve (Enabled a) req resp now cpu)) =
     [get_metric_name (get_entity_name req) req (Some resp) @ ''.cumulative''] @
     (if is_error_status_code resp
      then [get_metric_name_without_status (get_entity_name req) req, ''response.errors'',
            ''response.errors.aggregated_per_source'']
      else []) @
     [''response.completed.aggregated_per_source''] @
     (if SHARD a \<noteq> NullTagObj then [''response.completed.aggregated_per_service''] else []) @
     (if CLUSTER a \<noteq> NullTagObj then [''response.completed.aggregated_per_application'']
      else [])"
  by (simp add: process_response_def MIDDLEWARE_ENABLED_def Let_def counter_names_append
      split: option.splits)

lemma delta_counter_names_process_response:
  "resolve (path_info req) = Some v \<Longrightarrow> has_span req \<Longrightarrow>
   delta_counter_names (snd (process_response c resolve (Enabled a) req resp now cpu)) =
     (if truthy_obj c (shard (application_tags a))
      then [get_metric_name (get_entity_name req) req (Some resp) @ ''.aggregated_per_shard'']
      else []) @
     [get_metric_name (get_entity_name req) req (Some resp) @ ''.aggregated_per_service''] @
     (if truthy_obj c (cluster (application_tags a))
      then [get_metric_name (get_entity_name req) req (Some resp) @ ''.aggregated_per_cluster'']
      else []) @
     [get_metric_name (get_entity_name req) req (Some resp) @ ''.aggregated_per_application''] @
     (if is_error_status_code resp
      then (if truthy_obj c (shard (application_tags a))
            then [''response.errors.aggregated_per_shard''] else []) @
           [''response.errors.aggregated_per_service''] @
           (if truthy_obj c (cluster (application_tags a))
            then [''response.errors.aggregated_per_cluster''] else []) @
           [''response.errors.aggregated_per_application'']
      else []) @
     (if SHARD a \<noteq> NullTagObj then [''response.completed.aggregated_per_shard''] else []) @
     (if CLUSTER a \<noteq> NullTagObj then [''response.completed.aggregated_per_cluster''] else [])"
  by (simp add: process_response_def MIDDLEWARE_ENABLED_def Let_def delta_counter_names_append
      split: option.splits)

lemma gauge_updates_process_response:
  "resolve (path_info req) = Some v \<Longrightarrow> has_span req \<Longrightarrow>
   gauge_updates (snd (process_response c resolve (Enabled a) req resp now cpu)) =
     [(get_metric_name (get_entity_name req) req None @ ''.inflight'',
       get_tags_map None None None (Some (func_module v)) (Some (func_name v)) None, - 1),
      (''total_requests.inflight'',
       get_tags_map (Some (chars c (CLUSTER a))) (Some (SERVICE a)) (Some (chars c (SHARD a)))
         None None None, - 1)]"
  by (simp add: process_response_def MIDDLEWARE_ENABLED_def Let_def gauge_updates_append
      split: option.splits)

lemma gauge_updates_process_view:
  "resolve (path_info req) = Some v \<Longrightarrow>
   gauge_updates (snd (snd (process_view c st resolve (Enabled a) req vf now cpu))) =
     [(get_metric_name (get_entity_name req) req None @ ''.inflight'',
       get_tags_map None None None (Some (func_module v)) (Some (func_name v)) None, 1),
      (''total_requests.inflight'',
       get_tags_map (Some (chars c (CLUSTER a))) (Some (SERVICE a)) (Some (chars c (SHARD a)))
         None None None, 1)]"
  by (simp add: process_view_def MIDDLEWARE_ENABLED_def Let_def gauge_updates_append
      get_entity_name_def get_metric_name_def)

lemma request_of_process_view:
  "resolve (path_info req) = Some v \<Longrightarrow>
   fst (process_view c st resolve (Enabled a) req vf now cpu)
     = (if tracing_trace_all a
        then req \<lparr> wf_timestamps := Some (now, cpu), has_span := True \<rparr>
        else req \<lparr> wf_timestamps := Some (now, cpu) \<rparr>)"
  by (simp add: process_view_def MIDDLEWARE_ENABLED_def Let_def)

lemma process_view_does_not_raise:
  "resolve (path_info req) = Some v \<Longrightarrow>
   fst (snd (process_view c st resolve (Enabled a) req vf now cpu)) = None"
  by (simp add: process_view_def MIDDLEWARE_ENABLED_def Let_def)

lemma dots_append: "dots (xs @ ys) = dots xs + dots ys"
  by (simp add: dots_def)

lemma dots_response_metric_key: "3 \<le> dots (get_metric_name e req (Some resp))"
  by (simp add: get_metric_name_def RESPONSE_PREFIX_def dots_def)

lemma status_name_fresh:
  "dots n < 3 + dots suf \<Longrightarrow> get_metric_name e req (Some resp) @ suf \<noteq> n"
  using dots_response_metric_key [of e req resp] by (auto simp: dots_append)

lemma take_without_status: "take 3 (get_metric_name_without_status e req) = ''req''"
  by (simp add: get_metric_name_without_status_def REQUEST_PREFIX_def)

lemma take_status_name: "take 3 (get_metric_name e req (Some resp) @ suf) = ''res''"
  by (simp add: get_metric_name_def RESPONSE_PREFIX_def)

lemma without_status_fresh:
  "take 3 n \<noteq> ''req'' \<Longrightarrow> get_metric_name_without_status e req \<noteq> n"
  using take_without_status [of e req] by auto

lemma without_status_not_status:
  "get_metric_name_without_status e req \<noteq> get_metric_name e' req' (Some resp) @ suf"
  using take_without_status [of e req] take_status_name [of e' req' resp suf] by auto

lemma gauge_delta_append: "gauge_delta k (xs @ ys) = gauge_delta k xs + gauge_delta k ys"
  by (induction k xs rule: gauge_delta.induct) simp_all

lemma gauge_delta_updates:
  "gauge_delta k es = (\<Sum>(key, tgs, val) \<leftarrow> gauge_updates es. if k = (key, tgs) then val else 0)"
  by (induction k es rule: gauge_delta.induct) simp_all

lemma reading_apply_effect:
  "gauge_reading (gauges (apply_effect e reg) k) = gauge_reading (gauges reg k) + gauge_delta k [e]"
  by (cases e) (auto simp: update_gauge_def gauge_reading_def Let_def split: gauge_value.splits)

lemma reading_run_effects:
  "gauge_reading (gauges (run_effects es reg) k) = gauge_reading (gauges reg k) + gauge_delta k es"
proof (induction es arbitrary: reg)
  case Nil
  then show ?case by (simp add: run_effects_def)
next
  case (Cons e es)
  have "run_effects (e # es) reg = run_effects es (apply_effect e reg)"
    by (simp add: run_effects_def)
  then show ?case
    using Cons [of "apply_effect e reg"] reading_apply_effect [of e reg k]
      gauge_delta_append [of k "[e]" es]
    by simp
qed

lemma status_name_fresh':
  "dots n < 3 + dots suf \<Longrightarrow> n \<noteq> get_metric_name e req (Some resp) @ suf"
  using status_name_fresh [of n suf e req resp] by auto

lemma without_status_fresh':
  "take 3 n \<noteq> ''req'' \<Longrightarrow> n \<noteq> get_metric_name_without_status e req"
  using without_status_fresh [of n e req] by auto

lemma or_null_tag_is_not_null:
  "(or_null_tag c x \<noteq> NullTagObj) = (\<exists>s. x = Some (PyStr s) \<and> s \<noteq> [])"
proof (cases x)
  case None
  then show ?thesis by (simp add: or_null_tag_def)
next
  case (Some s)
  then show ?thesis by (cases s) (auto simp: or_null_tag_def)
qed

lemma not_the_null_tag_object:
  "x \<noteq> Some NullTagObj \<Longrightarrow>
   (\<exists>s. x = Some (PyStr s) \<and> s \<noteq> []) = (\<exists>s. x = Some s \<and> chars c s \<noteq> [])"
proof (cases x)
  case None
  then show ?thesis by simp
next
  case (Some s)
  assume "x \<noteq> Some NullTagObj"
  then show ?thesis using Some by (cases s) auto
qed

lemma truthy_obj_iff: "truthy_obj c x = (\<exists>s. x = Some s \<and> chars c s \<noteq> [])"
  by (cases x) (auto simp: truthy_obj_def)

lemma attrs_simps:
  "application_tags (make_attributes c tgs tr) = tgs"
  "tracing_trace_all (make_attributes c tgs tr) = tr"
  "SHARD (make_attributes c tgs tr) = or_null_tag c (shard tgs)"
  "CLUSTER (make_attributes c tgs tr) = or_null_tag c (cluster tgs)"
  "SERVICE (make_attributes c tgs tr) = str_or_null_tag c (service tgs)"
  by (simp_all add: make_attributes_def)

lemmas fresh = status_name_fresh status_name_fresh' without_status_fresh without_status_fresh'
  without_status_not_status without_status_not_status [symmetric] dots_def

lemmas tag_maps = complete_tags_map_def aggregated_per_shard_map_def
  overall_aggregated_per_source_map_def overall_aggregated_per_shard_map_def
  aggregated_per_service_map_def overall_aggregated_per_service_map_def
  aggregated_per_cluster_map_def overall_aggregated_per_cluster_map_def
  aggregated_per_application_map_def overall_aggregated_per_application_map_def

lemma example_resolves:
  "example_resolve (path_info make_request) = Some make_view"
  "example_resolve (path_info traced_request) = Some make_view"
  "has_span traced_request" "\<not> has_span make_request"
  "example_resolve (path_info lost_request) = None"
  by (simp_all add: example_resolve_def make_request_def traced_request_def make_view_def
      lost_request_def)

lemma example_keys:
  "get_metric_name (get_entity_name traced_request) traced_request
     (Some \<lparr> status_code = 503 \<rparr>) = ''response.make.GET.503''"
  "get_metric_name (get_entity_name traced_request) traced_request
     (Some \<lparr> status_code = 200 \<rparr>) = ''response.make.GET.200''"
  by code_simp+

section \<open>The inflight gauges\<close>

text \<open>
  Claim C5. For a request whose path resolves, \<open>process_view\<close> does not raise and adds 1
  to the gauge \<open><request-prefix>.<entity>.<method>.inflight\<close> and to the gauge
  \<open>total_requests.inflight\<close>: each reads one more than before. When \<open>_trace_all\<close> is true, or
  the tracer already holds a span for the request, \<open>process_response\<close> returns the response
  and adds -1 to the same two gauges under the same keys and tags: the updates of every
  gauge sum to 0, and whatever calls are made in between, each gauge reads after the two
  hooks what it reads without them (a gauge that reads NaN counts as 0, as \<open>update_gauge\<close>
  takes it). When \<open>_trace_all\<close> is false and the tracer holds no span, \<open>process_response\<close>
  raises \<open>AttributeError\<close> before it makes any call, and both gauges stay one higher than
  before the request.
\<close>

theorem inflight_gauges_of_a_request:
  assumes rs: "resolve (path_info req) = Some v"
      and pv: "process_view c st resolve (Enabled a) req vf now0 cpu0 = (req', raised, es1)"
      and pr: "process_response c resolve (Enabled a) req' resp now1 cpu1 = (out, es2)"
      and k1: "k1 = (REQUEST_PREFIX @ ''.'' @ get_entity_name req @ ''.'' @ request_method req
                       @ ''.inflight'',
                     get_tags_map None None None (Some (func_module v)) (Some (func_name v))
                       None)"
      and k2: "k2 = (''total_requests.inflight'',
                     get_tags_map (Some (chars c (CLUSTER a))) (Some (SERVICE a))
                       (Some (chars c (SHARD a))) None None None)"
  shows "raised = None
       \<and> gauge_updates es1 = [(fst k1, snd k1, 1), (fst k2, snd k2, 1)]
       \<and> (\<forall>reg. gauge_reading (gauges (run_effects es1 reg) k1)
                   = gauge_reading (gauges reg k1) + 1
               \<and> gauge_reading (gauges (run_effects es1 reg) k2)
                   = gauge_reading (gauges reg k2) + 1)
       \<and> (tracing_trace_all a \<or> has_span req \<longrightarrow>
             out = Inr resp
           \<and> gauge_updates es2 = [(fst k1, snd k1, - 1), (fst k2, snd k2, - 1)]
           \<and> (\<forall>k. gauge_delta k (es1 @ es2) = 0)
           \<and> (\<forall>k mid reg.
                 gauge_reading (gauges (run_effects (es1 @ mid @ es2) reg) k)
                   = gauge_reading (gauges (run_effects mid reg) k)))
       \<and> (\<not> tracing_trace_all a \<and> \<not> has_span req \<longrightarrow>
             (\<exists>msg. out = Inl (AttributeError msg))
           \<and> es2 = []
           \<and> (\<forall>reg. gauge_reading (gauges (run_effects (es1 @ es2) reg) k1)
                       = gauge_reading (gauges reg k1) + 1
                   \<and> gauge_reading (gauges (run_effects (es1 @ es2) reg) k2)
                       = gauge_reading (gauges reg k2) + 1))"
proof -
  have req': "req' = (if tracing_trace_all a
        then req \<lparr> wf_timestamps := Some (now0, cpu0), has_span := True \<rparr>
        else req \<lparr> wf_timestamps := Some (now0, cpu0) \<rparr>)"
    using pv request_of_process_view [where resolve = resolve and req = req, OF rs, of c st a vf now0 cpu0] by simp
  have raised: "raised = None"
    using pv process_view_does_not_raise [where resolve = resolve and req = req, OF rs, of c st a vf now0 cpu0] by simp
  have es1: "es1 = snd (snd (process_view c st resolve (Enabled a) req vf now0 cpu0))"
    using pv by simp
  have out: "out = fst (process_response c resolve (Enabled a) req' resp now1 cpu1)"
    and es2: "es2 = snd (process_response c resolve (Enabled a) req' resp now1 cpu1)"
    using pr by simp_all
  have same: "get_entity_name req' = get_entity_name req"
    "request_method req' = request_method req" "path_info req' = path_info req"
    by (simp_all add: req' get_entity_name_def)
  have rs': "resolve (path_info req') = Some v"
    using rs by (simp add: same)
  have key: "get_metric_name (get_entity_name req) req None @ ''.inflight'' = fst k1"
    by (simp add: get_metric_name_def k1)
  have key': "get_metric_name (get_entity_name req) req' None @ ''.inflight'' = fst k1"
    by (simp add: get_metric_name_def k1 same)
  have u1: "gauge_updates es1 = [(fst k1, snd k1, 1), (fst k2, snd k2, 1)]"
    unfolding es1 gauge_updates_process_view [where resolve = resolve and req = req, OF rs] key by (simp add: k1 k2)
  have differ: "k1 \<noteq> k2"
    by (simp add: k1 k2 REQUEST_PREFIX_def)
  have d1: "gauge_delta k1 es1 = 1" "gauge_delta k2 es1 = 1"
    using differ by (auto simp: gauge_delta_updates u1)
  have plus: "gauge_reading (gauges (run_effects es1 reg) k1) = gauge_reading (gauges reg k1) + 1
            \<and> gauge_reading (gauges (run_effects es1 reg) k2) = gauge_reading (gauges reg k2) + 1"
    for reg
    by (simp add: reading_run_effects d1)
  have good: "out = Inr resp
           \<and> gauge_updates es2 = [(fst k1, snd k1, - 1), (fst k2, snd k2, - 1)]
           \<and> (\<forall>k. gauge_delta k (es1 @ es2) = 0)
           \<and> (\<forall>k mid reg.
                 gauge_reading (gauges (run_effects (es1 @ mid @ es2) reg) k)
                   = gauge_reading (gauges (run_effects mid reg) k))"
    if "tracing_trace_all a \<or> has_span req"
  proof -
    have sp: "has_span req'"
      using that by (auto simp: req')
    have o: "out = Inr resp"
      unfolding out by (rule process_response_returns [where resolve = resolve and req = req', OF rs' sp])
    have u2: "gauge_updates es2 = [(fst k1, snd k1, - 1), (fst k2, snd k2, - 1)]"
      unfolding es2 gauge_updates_process_response [where resolve = resolve and req = req', OF rs' sp] same key' by (simp add: k1 k2)
    have zero: "gauge_delta k (es1 @ es2) = 0" for k
    proof -
      have "gauge_delta k es1 + gauge_delta k es2 = 0"
        by (simp add: gauge_delta_updates u1 u2)
      then show ?thesis by (simp add: gauge_delta_append)
    qed
    have net: "gauge_reading (gauges (run_effects (es1 @ mid @ es2) reg) k)
                 = gauge_reading (gauges (run_effects mid reg) k)" for k mid reg
      using zero [of k] by (simp add: reading_run_effects gauge_delta_append)
    show ?thesis
      using o u2 zero net by blast
  qed
  have bad: "(\<exists>msg. out = Inl (AttributeError msg))
           \<and> es2 = []
           \<and> (\<forall>reg. gauge_reading (gauges (run_effects (es1 @ es2) reg) k1)
                       = gauge_reading (gauges reg k1) + 1
                   \<and> gauge_reading (gauges (run_effects (es1 @ es2) reg) k2)
                       = gauge_reading (gauges reg k2) + 1)"
    if "\<not> tracing_trace_all a \<and> \<not> has_span req"
  proof -
    have sp: "\<not> has_span req'"
      using that by (simp add: req')
    have r: "process_response c resolve (Enabled a) req' resp now1 cpu1
               = (Inl (AttributeError ''NoneType object has no attribute set_tag''), [])"
      by (rule process_response_no_span [where resolve = resolve and req = req', OF rs' sp])
    have o: "\<exists>msg. out = Inl (AttributeError msg)"
      unfolding out r by simp
    have e: "es2 = []"
      unfolding es2 r by simp
    show ?thesis
      using o e plus by simp
  qed
  show ?thesis
    using raised u1 plus good bad by blast
qed

text \<open>
  The request of the specification's scenario, with \<open>_trace_all\<close> true and with \<open>_trace_all\<close>
  false.
\<close>

theorem inflight_gauges_of_a_request_witness:
  "gauge_reading (gauges (run_effects
       (snd (snd (process_view example_constants no_settings example_resolve
          (Enabled (make_attributes example_constants beachshirts_tags True)) make_request
          make_view 5 7))) TaggedRegistry)
       (''request.make.GET.inflight'',
        [(''django.resource.module'', ''shop.views''), (''django.resource.func'', ''make'')]))
     = 1
   \<and> fst (process_response example_constants example_resolve
       (Enabled (make_attributes example_constants beachshirts_tags True))
       (fst (process_view example_constants no_settings example_resolve
          (Enabled (make_attributes example_constants beachshirts_tags True)) make_request
          make_view 5 7))
       \<lparr> status_code = 200 \<rparr> 6 9) = Inr \<lparr> status_code = 200 \<rparr>
   \<and> gauge_reading (gauges (run_effects
       (snd (snd (process_view example_constants no_settings example_resolve
          (Enabled (make_attributes example_constants beachshirts_tags True)) make_request
          make_view 5 7))
        @ snd (process_response example_constants example_resolve
          (Enabled (make_attributes example_constants beachshirts_tags True))
          (fst (process_view example_constants no_settings example_resolve
             (Enabled (make_attributes example_constants beachshirts_tags True)) make_request
             make_view 5 7))
          \<lparr> status_code = 200 \<rparr> 6 9)) TaggedRegistry)
       (''request.make.GET.inflight'',
        [(''django.resource.module'', ''shop.views''), (''django.resource.func'', ''make'')]))
     = 0
   \<and> (\<exists>msg. fst (process_response example_constants example_resolve
       (Enabled (make_attributes example_constants beachshirts_tags False))
       (fst (process_view example_constants no_settings example_resolve
          (Enabled (make_attributes example_constants beachshirts_tags False)) make_request
          make_view 5 7))
       \<lparr> status_code = 200 \<rparr> 6 9) = Inl (AttributeError msg))
   \<and> gauge_reading (gauges (run_effects
       (snd (snd (process_view example_constants no_settings example_resolve
          (Enabled (make_attributes example_constants beachshirts_tags False)) make_request
          make_view 5 7))
        @ snd (process_response example_constants example_resolve
          (Enabled (make_attributes example_constants beachshirts_tags False))
          (fst (process_view example_constants no_settings example_resolve
             (Enabled (make_attributes example_constants beachshirts_tags False)) make_request
             make_view 5 7))
          \<lparr> status_code = 200 \<rparr> 6 9)) TaggedRegistry)
       (''request.make.GET.inflight'',
        [(''django.resource.module'', ''shop.views''), (''django.resource.func'', ''make'')]))
     = 1"
proof -
  let ?on = "Enabled (make_attributes example_constants beachshirts_tags True)"
  let ?off = "Enabled (make_attributes example_constants beachshirts_tags False)"
  let ?pv = "\<lambda>self. process_view example_constants no_settings example_resolve self
               make_request make_view 5 7"
  let ?pr = "\<lambda>self. process_response example_constants example_resolve self (fst (?pv self))
               \<lparr> status_code = 200 \<rparr> 6 9"
  let ?k = "(''request.make.GET.inflight'',
        [(''django.resource.module'', ''shop.views''), (''django.resource.func'', ''make'')])"
  have pv: "?pv self = (fst (?pv self), fst (snd (?pv self)), snd (snd (?pv self)))" for self
    by simp
  have pr: "?pr self = (fst (?pr self), snd (?pr self))" for self
    by simp
  have k: "(REQUEST_PREFIX @ ''.'' @ get_entity_name make_request @ ''.''
              @ request_method make_request @ ''.inflight'',
            get_tags_map None None None (Some (func_module make_view))
              (Some (func_name make_view)) None) = ?k"
    by code_simp
  have r0: "gauge_reading (gauges TaggedRegistry ?k) = 0"
    by (simp add: TaggedRegistry_def gauge_reading_def)
  have sp: "\<not> has_span make_request"
    by (rule example_resolves)
  note on = inflight_gauges_of_a_request [where resolve = example_resolve
      and req = make_request, OF example_resolves(1) pv [of ?on] pr [of ?on] k [symmetric] refl]
  note off = inflight_gauges_of_a_request [where resolve = example_resolve
      and req = make_request, OF example_resolves(1) pv [of ?off] pr [of ?off] k [symmetric]
      refl]
  have traced: "tracing_trace_all (make_attributes example_constants beachshirts_tags True)
      \<or> has_span make_request"
    by (simp add: attrs_simps)
  have untraced: "\<not> tracing_trace_all (make_attributes example_constants beachshirts_tags False)
      \<and> \<not> has_span make_request"
    using sp by (simp add: attrs_simps)
  note started = on [THEN conjunct2, THEN conjunct2, THEN conjunct1, THEN spec,
      of TaggedRegistry, THEN conjunct1]
  note good = on [THEN conjunct2, THEN conjunct2, THEN conjunct2, THEN conjunct1, THEN mp,
      OF traced]
  note bad = off [THEN conjunct2, THEN conjunct2, THEN conjunct2, THEN conjunct2, THEN mp,
      OF untraced]
  have 1: "gauge_reading (gauges (run_effects (snd (snd (?pv ?on))) TaggedRegistry) ?k) = 1"
    using started r0 by simp
  have 2: "fst (?pr ?on) = Inr \<lparr> status_code = 200 \<rparr>"
    by (rule good [THEN conjunct1])
  have "gauge_reading (gauges (run_effects (snd (snd (?pv ?on)) @ [] @ snd (?pr ?on))
            TaggedRegistry) ?k)
          = gauge_reading (gauges (run_effects [] TaggedRegistry) ?k)"
    by (rule good [THEN conjunct2, THEN conjunct2, THEN conjunct2, THEN spec, THEN spec,
          THEN spec])
  then have 3: "gauge_reading (gauges (run_effects (snd (snd (?pv ?on)) @ snd (?pr ?on))
            TaggedRegistry) ?k) = 0"
    using r0 by (simp add: run_effects_def)
  have 4: "\<exists>msg. fst (?pr ?off) = Inl (AttributeError msg)"
    by (rule bad [THEN conjunct1])
  have 5: "gauge_reading (gauges (run_effects (snd (snd (?pv ?off)) @ snd (?pr ?off))
            TaggedRegistry) ?k) = 1"
    using bad [THEN conjunct2, THEN conjunct2, THEN spec, of TaggedRegistry, THEN conjunct1] r0
    by simp
  show ?thesis
    using 1 2 3 4 5 by (intro conjI)
qed

section \<open>The counters of \<open>process_response\<close>\<close>

text \<open>
  Claim C1. With \<open>_trace_all\<close> true, \<open>process_view\<close> leaves the request of the scenario
  with a span attached. For that request and status 503, \<open>process_response\<close> returns the
  response, and its error branch increments the cumulative counter \<open>request.make.GET\<close> at
  the complete tags and the counter \<open>response.errors\<close>; no counter named
  \<open>request.make.GET.errors\<close> is incremented.
\<close>

theorem error_counter_lacks_errors_suffix:
  "fst (process_view example_constants no_settings example_resolve
          (Enabled (make_attributes example_constants beachshirts_tags True)) make_request
          make_view 5 7) = traced_request
   \<and> fst (process_response example_constants example_resolve
          (Enabled (make_attributes example_constants beachshirts_tags True)) traced_request
          \<lparr> status_code = 503 \<rparr> 6 9) = Inr \<lparr> status_code = 503 \<rparr>
   \<and> CounterInc ''request.make.GET''
       [(''cluster'', ''none''), (''service'', ''styling''), (''shard'', ''none''),
        (''django.resource.module'', ''shop.views''), (''django.resource.func'', ''make'')]
     \<in> set (snd (process_response example_constants example_resolve
           (Enabled (make_attributes example_constants beachshirts_tags True)) traced_request
           \<lparr> status_code = 503 \<rparr> 6 9))
   \<and> ''request.make.GET.errors''
     \<notin> set (counter_names (snd (process_response example_constants example_resolve
           (Enabled (make_attributes example_constants beachshirts_tags True)) traced_request
           \<lparr> status_code = 503 \<rparr> 6 9)))
   \<and> ''response.errors''
     \<in> set (counter_names (snd (process_response example_constants example_resolve
           (Enabled (make_attributes example_constants beachshirts_tags True)) traced_request
           \<lparr> status_code = 503 \<rparr> 6 9)))"
proof -
  have pv: "fst (process_view example_constants no_settings example_resolve
          (Enabled (make_attributes example_constants beachshirts_tags True)) make_request
          make_view 5 7) = traced_request"
    by (simp add: process_view_def MIDDLEWARE_ENABLED_def Let_def example_resolve_def
        make_request_def make_attributes_def traced_request_def)
  have pr: "fst (process_response example_constants example_resolve
          (Enabled (make_attributes example_constants beachshirts_tags True)) traced_request
          \<lparr> status_code = 503 \<rparr> 6 9) = Inr \<lparr> status_code = 503 \<rparr>
   \<and> CounterInc ''request.make.GET''
       [(''cluster'', ''none''), (''service'', ''styling''), (''shard'', ''none''),
        (''django.resource.module'', ''shop.views''), (''django.resource.func'', ''make'')]
     \<in> set (snd (process_response example_constants example_resolve
           (Enabled (make_attributes example_constants beachshirts_tags True)) traced_request
           \<lparr> status_code = 503 \<rparr> 6 9))
   \<and> ''request.make.GET.errors''
     \<notin> set (counter_names (snd (process_response example_constants example_resolve
           (Enabled (make_attributes example_constants beachshirts_tags True)) traced_request
           \<lparr> status_code = 503 \<rparr> 6 9)))
   \<and> ''response.errors''
     \<in> set (counter_names (snd (process_response example_constants example_resolve
           (Enabled (make_attributes example_constants beachshirts_tags True)) traced_request
           \<lparr> status_code = 503 \<rparr> 6 9)))"
    by code_simp
  show ?thesis
    using pv pr by (rule conjI)
qed

text \<open>
  The same for every request: no cumulative counter is named
  \<open><request-prefix>.<entity>.<method>.errors\<close>.
\<close>

lemma no_counter_with_errors_suffix:
  "get_metric_name_without_status (get_entity_name req) req @ ''.errors''
     \<notin> set (counter_names (snd (process_response c resolve (Enabled a) req resp now cpu)))"
proof (cases "(\<exists>v. resolve (path_info req) = Some v) \<and> has_span req")
  case True
  then obtain v where rs: "resolve (path_info req) = Some v" and sp: "has_span req"
    by blast
  note names = counter_names_process_response [where resolve = resolve and req = req, OF rs sp]
  have "take 3 (get_metric_name_without_status (get_entity_name req) req @ ''.errors'') = ''req''"
    by (simp add: get_metric_name_without_status_def REQUEST_PREFIX_def)
  moreover have "take 3 n = ''res''"
    if "n \<in> set (counter_names (snd (process_response c resolve (Enabled a) req resp now cpu)))"
       "n \<noteq> get_metric_name_without_status (get_entity_name req) req" for n
    using that unfolding names
    by (auto simp: take_status_name simp del: take_append split: if_splits)
  ultimately show ?thesis by fastforce
next
  case False
  then have "snd (process_response c resolve (Enabled a) req resp now cpu) = []"
    by (cases "resolve (path_info req)")
       (auto simp: process_response_def MIDDLEWARE_ENABLED_def Let_def)
  then show ?thesis by simp
qed

text \<open>
  Claim C2, as amended. For a response that \<open>process_response\<close> handles without raising
  (the path resolves and the tracer holds a span for the request): in the per-status
  rollups, and for an error status in the \<open>response.errors\<close> rollups, the
  \<open>aggregated_per_shard\<close> delta counter is incremented iff the configured shard is neither
  \<open>None\<close> nor empty, and the \<open>aggregated_per_cluster\<close> delta counter iff the configured
  cluster is neither \<open>None\<close> nor empty; otherwise the counter is omitted. The same holds in
  the \<open>response.completed\<close> rollups for a configured value that is not the \<open>NULL_TAG_VAL\<close>
  object itself; what happens for that object is not stated.
\<close>

theorem shard_cluster_rollups_gated:
  assumes "resolve (path_info req) = Some v" and "has_span req"
  shows
  "((get_metric_name (get_entity_name req) req (Some resp) @ ''.aggregated_per_shard''
       \<in> set (delta_counter_names (snd (process_response c resolve
            (Enabled (make_attributes c tgs tr)) req resp now cpu))))
      = (\<exists>s. shard tgs = Some s \<and> chars c s \<noteq> []))
   \<and> ((''response.errors.aggregated_per_shard''
       \<in> set (delta_counter_names (snd (process_response c resolve
            (Enabled (make_attributes c tgs tr)) req resp now cpu))))
      = (is_error_status_code resp \<and> (\<exists>s. shard tgs = Some s \<and> chars c s \<noteq> [])))
   \<and> (shard tgs \<noteq> Some NullTagObj \<longrightarrow>
       (''response.completed.aggregated_per_shard''
         \<in> set (delta_counter_names (snd (process_response c resolve
              (Enabled (make_attributes c tgs tr)) req resp now cpu))))
        = (\<exists>s. shard tgs = Some s \<and> chars c s \<noteq> []))
   \<and> ((get_metric_name (get_entity_name req) req (Some resp) @ ''.aggregated_per_cluster''
       \<in> set (delta_counter_names (snd (process_response c resolve
            (Enabled (make_attributes c tgs tr)) req resp now cpu))))
      = (\<exists>s. cluster tgs = Some s \<and> chars c s \<noteq> []))
   \<and> ((''response.errors.aggregated_per_cluster''
       \<in> set (delta_counter_names (snd (process_response c resolve
            (Enabled (make_attributes c tgs tr)) req resp now cpu))))
      = (is_error_status_code resp \<and> (\<exists>s. cluster tgs = Some s \<and> chars c s \<noteq> [])))
   \<and> (cluster tgs \<noteq> Some NullTagObj \<longrightarrow>
       (''response.completed.aggregated_per_cluster''
         \<in> set (delta_counter_names (snd (process_response c resolve
              (Enabled (make_attributes c tgs tr)) req resp now cpu))))
        = (\<exists>s. cluster tgs = Some s \<and> chars c s \<noteq> []))"
  unfolding delta_counter_names_process_response [where resolve = resolve and req = req,
      OF assms] attrs_simps or_null_tag_is_not_null truthy_obj_iff
  using not_the_null_tag_object [of "shard tgs" c] not_the_null_tag_object [of "cluster tgs" c]
  by (simp add: fresh)

theorem shard_cluster_rollups_gated_witness:
  "example_resolve (path_info traced_request) = Some make_view \<and> has_span traced_request
   \<and> ''response.make.GET.503.aggregated_per_shard''
     \<in> set (delta_counter_names (snd (process_response example_constants example_resolve
          (Enabled (make_attributes example_constants blue_tags True)) traced_request
          \<lparr> status_code = 503 \<rparr> 6 9)))
   \<and> ''response.errors.aggregated_per_shard''
     \<in> set (delta_counter_names (snd (process_response example_constants example_resolve
          (Enabled (make_attributes example_constants blue_tags True)) traced_request
          \<lparr> status_code = 503 \<rparr> 6 9)))
   \<and> ''response.completed.aggregated_per_shard''
     \<in> set (delta_counter_names (snd (process_response example_constants example_resolve
          (Enabled (make_attributes example_constants blue_tags True)) traced_request
          \<lparr> status_code = 503 \<rparr> 6 9)))
   \<and> ''response.make.GET.503.aggregated_per_cluster''
     \<in> set (delta_counter_names (snd (process_response example_constants example_resolve
          (Enabled (make_attributes example_constants blue_tags True)) traced_request
          \<lparr> status_code = 503 \<rparr> 6 9)))
   \<and> ''response.make.GET.200.aggregated_per_cluster''
     \<notin> set (delta_counter_names (snd (process_response example_constants example_resolve
          (Enabled (make_attributes example_constants beachshirts_tags True)) traced_request
          \<lparr> status_code = 200 \<rparr> 6 9)))
   \<and> ''response.completed.aggregated_per_cluster''
     \<notin> set (delta_counter_names (snd (process_response example_constants example_resolve
          (Enabled (make_attributes example_constants beachshirts_tags True)) traced_request
          \<lparr> status_code = 200 \<rparr> 6 9)))"
proof -
  have e: "is_error_status_code \<lparr> status_code = 503 \<rparr>"
    by (simp add: is_error_status_code_def)
  have s: "shard blue_tags = Some (PyStr ''blue'')" "cluster blue_tags = Some NullTagObj"
    "cluster beachshirts_tags = None"
    by (simp_all add: blue_tags_def beachshirts_tags_def)
  have n: "NULL_TAG_VAL example_constants = ''none''"
    by (simp add: example_constants_def)
  note t = shard_cluster_rollups_gated [where resolve = example_resolve
      and req = traced_request, OF example_resolves(2) example_resolves(3),
      where c = example_constants and tr = True and now = 6 and cpu = 9]
  note blue = t [where tgs = blue_tags and resp = "\<lparr> status_code = 503 \<rparr>",
      unfolded example_keys]
  note none = t [where tgs = beachshirts_tags and resp = "\<lparr> status_code = 200 \<rparr>",
      unfolded example_keys]
  have 1: "''response.make.GET.503.aggregated_per_shard''
     \<in> set (delta_counter_names (snd (process_response example_constants example_resolve
          (Enabled (make_attributes example_constants blue_tags True)) traced_request
          \<lparr> status_code = 503 \<rparr> 6 9)))"
    using blue [THEN conjunct1] by (simp add: s)
  have 2: "''response.errors.aggregated_per_shard''
     \<in> set (delta_counter_names (snd (process_response example_constants example_resolve
          (Enabled (make_attributes example_constants blue_tags True)) traced_request
          \<lparr> status_code = 503 \<rparr> 6 9)))"
    using blue [THEN conjunct2, THEN conjunct1] e by (simp add: s)
  have 3: "''response.completed.aggregated_per_shard''
     \<in> set (delta_counter_names (snd (process_response example_constants example_resolve
          (Enabled (make_attributes example_constants blue_tags True)) traced_request
          \<lparr> status_code = 503 \<rparr> 6 9)))"
    using blue [THEN conjunct2, THEN conjunct2, THEN conjunct1] by (simp add: s)
  have 4: "''response.make.GET.503.aggregated_per_cluster''
     \<in> set (delta_counter_names (snd (process_response example_constants example_resolve
          (Enabled (make_attributes example_constants blue_tags True)) traced_request
          \<lparr> status_code = 503 \<rparr> 6 9)))"
    using blue [THEN conjunct2, THEN conjunct2, THEN conjunct2, THEN conjunct1]
    by (simp add: s n)
  have 5: "''response.make.GET.200.aggregated_per_cluster''
     \<notin> set (delta_counter_names (snd (process_response example_constants example_resolve
          (Enabled (make_attributes example_constants beachshirts_tags True)) traced_request
          \<lparr> status_code = 200 \<rparr> 6 9)))"
    using none [THEN conjunct2, THEN conjunct2, THEN conjunct2, THEN conjunct1]
    by (simp add: s)
  have 6: "''response.completed.aggregated_per_cluster''
     \<notin> set (delta_counter_names (snd (process_response example_constants example_resolve
          (Enabled (make_attributes example_constants beachshirts_tags True)) traced_request
          \<lparr> status_code = 200 \<rparr> 6 9)))"
    using none [THEN conjunct2, THEN conjunct2, THEN conjunct2, THEN conjunct2, THEN conjunct2]
    by (simp add: s)
  show ?thesis
    using example_resolves(2) example_resolves(3) 1 2 3 4 5 6 by (intro conjI)
qed

text \<open>
  Claim C2 as it is stated fails for a shard that is the empty string: the response is
  handled without raising, the shard is not \<open>None\<close>, and the per-status
  \<open>aggregated_per_shard\<close> counter is not incremented, while the per-service counter is.
\<close>

theorem empty_shard_omits_per_shard_counter:
  "fst (process_response example_constants example_resolve
          (Enabled (make_attributes example_constants empty_shard_tags True)) traced_request
          \<lparr> status_code = 200 \<rparr> 6 9) = Inr \<lparr> status_code = 200 \<rparr>
   \<and> shard empty_shard_tags \<noteq> None
   \<and> ''response.make.GET.200.aggregated_per_shard''
     \<notin> set (delta_counter_names (snd (process_response example_constants example_resolve
           (Enabled (make_attributes example_constants empty_shard_tags True)) traced_request
           \<lparr> status_code = 200 \<rparr> 6 9)))
   \<and> ''response.make.GET.200.aggregated_per_service''
     \<in> set (delta_counter_names (snd (process_response example_constants example_resolve
           (Enabled (make_attributes example_constants empty_shard_tags True)) traced_request
           \<lparr> status_code = 200 \<rparr> 6 9)))"
  by code_simp

text \<open>
  Claim C3, as amended. For a response that \<open>process_response\<close> handles without raising,
  \<open>response.completed.aggregated_per_source\<close> is incremented;
  \<open>response.completed.aggregated_per_shard\<close> and \<open>response.completed.aggregated_per_service\<close>
  are incremented together or not at all, and so are
  \<open>response.completed.aggregated_per_cluster\<close> and
  \<open>response.completed.aggregated_per_application\<close>. The first pair is incremented iff the
  configured shard is neither \<open>None\<close> nor empty, the second iff the configured cluster is
  neither \<open>None\<close> nor empty, for a configured value that is not the \<open>NULL_TAG_VAL\<close> object
  itself; what happens for that object is not stated.
\<close>

theorem completed_rollups_coupled:
  assumes "resolve (path_info req) = Some v" and "has_span req"
  shows
  "''response.completed.aggregated_per_source''
       \<in> set (counter_names (snd (process_response c resolve
            (Enabled (make_attributes c tgs tr)) req resp now cpu)))
   \<and> ((''response.completed.aggregated_per_shard''
         \<in> set (delta_counter_names (snd (process_response c resolve
              (Enabled (make_attributes c tgs tr)) req resp now cpu))))
        = (''response.completed.aggregated_per_service''
         \<in> set (counter_names (snd (process_response c resolve
              (Enabled (make_attributes c tgs tr)) req resp now cpu)))))
   \<and> ((''response.completed.aggregated_per_cluster''
         \<in> set (delta_counter_names (snd (process_response c resolve
              (Enabled (make_attributes c tgs tr)) req resp now cpu))))
        = (''response.completed.aggregated_per_application''
         \<in> set (counter_names (snd (process_response c resolve
              (Enabled (make_attributes c tgs tr)) req resp now cpu)))))
   \<and> (shard tgs \<noteq> Some NullTagObj \<longrightarrow>
        (''response.completed.aggregated_per_shard''
           \<in> set (delta_counter_names (snd (process_response c resolve
                (Enabled (make_attributes c tgs tr)) req resp now cpu))))
          = (\<exists>s. shard tgs = Some s \<and> chars c s \<noteq> []))
   \<and> (cluster tgs \<noteq> Some NullTagObj \<longrightarrow>
        (''response.completed.aggregated_per_cluster''
           \<in> set (delta_counter_names (snd (process_response c resolve
                (Enabled (make_attributes c tgs tr)) req resp now cpu))))
          = (\<exists>s. cluster tgs = Some s \<and> chars c s \<noteq> []))"
  unfolding delta_counter_names_process_response [where resolve = resolve and req = req,
      OF assms] counter_names_process_response [where resolve = resolve and req = req,
      OF assms] attrs_simps or_null_tag_is_not_null truthy_obj_iff
  using not_the_null_tag_object [of "shard tgs" c] not_the_null_tag_object [of "cluster tgs" c]
  by (simp add: fresh)

theorem completed_rollups_coupled_witness:
  "example_resolve (path_info traced_request) = Some make_view \<and> has_span traced_request
   \<and> ''response.completed.aggregated_per_source''
     \<in> set (counter_names (snd (process_response example_constants example_resolve
          (Enabled (make_attributes example_constants blue_tags True)) traced_request
          \<lparr> status_code = 200 \<rparr> 6 9)))
   \<and> ''response.completed.aggregated_per_shard''
     \<in> set (delta_counter_names (snd (process_response example_constants example_resolve
          (Enabled (make_attributes example_constants blue_tags True)) traced_request
          \<lparr> status_code = 200 \<rparr> 6 9)))
   \<and> ''response.completed.aggregated_per_service''
     \<in> set (counter_names (snd (process_response example_constants example_resolve
          (Enabled (make_attributes example_constants blue_tags True)) traced_request
          \<lparr> status_code = 200 \<rparr> 6 9)))
   \<and> ''response.completed.aggregated_per_cluster''
     \<notin> set (delta_counter_names (snd (process_response example_constants example_resolve
          (Enabled (make_attributes example_constants beachshirts_tags True)) traced_request
          \<lparr> status_code = 200 \<rparr> 6 9)))
   \<and> ''response.completed.aggregated_per_application''
     \<notin> set (counter_names (snd (process_response example_constants example_resolve
          (Enabled (make_attributes example_constants beachshirts_tags True)) traced_request
          \<lparr> status_code = 200 \<rparr> 6 9)))"
proof -
  have s: "shard blue_tags = Some (PyStr ''blue'')" "cluster beachshirts_tags = None"
    by (simp_all add: blue_tags_def beachshirts_tags_def)
  note t = completed_rollups_coupled [where resolve = example_resolve
      and req = traced_request, OF example_resolves(2) example_resolves(3),
      where c = example_constants and tr = True and now = 6 and cpu = 9
      and resp = "\<lparr> status_code = 200 \<rparr>"]
  note blue = t [where tgs = blue_tags]
  note none = t [where tgs = beachshirts_tags]
  have 1: "''response.completed.aggregated_per_source''
     \<in> set (counter_names (snd (process_response example_constants example_resolve
          (Enabled (make_attributes example_constants blue_tags True)) traced_request
          \<lparr> status_code = 200 \<rparr> 6 9)))"
    by (rule blue [THEN conjunct1])
  have 2: "''response.completed.aggregated_per_shard''
     \<in> set (delta_counter_names (snd (process_response example_constants example_resolve
          (Enabled (make_attributes example_constants blue_tags True)) traced_request
          \<lparr> status_code = 200 \<rparr> 6 9)))"
    using blue [THEN conjunct2, THEN conjunct2, THEN conjunct2, THEN conjunct1]
    by (simp add: s)
  have 3: "''response.completed.aggregated_per_service''
     \<in> set (counter_names (snd (process_response example_constants example_resolve
          (Enabled (make_attributes example_constants blue_tags True)) traced_request
          \<lparr> status_code = 200 \<rparr> 6 9)))"
    using blue [THEN conjunct2, THEN conjunct1] 2 by simp
  have 4: "''response.completed.aggregated_per_cluster''
     \<notin> set (delta_counter_names (snd (process_response example_constants example_resolve
          (Enabled (make_attributes example_constants beachshirts_tags True)) traced_request
          \<lparr> status_code = 200 \<rparr> 6 9)))"
    using none [THEN conjunct2, THEN conjunct2, THEN conjunct2, THEN conjunct2]
    by (simp add: s)
  have 5: "''response.completed.aggregated_per_application''
     \<notin> set (counter_names (snd (process_response example_constants example_resolve
          (Enabled (make_attributes example_constants beachshirts_tags True)) traced_request
          \<lparr> status_code = 200 \<rparr> 6 9)))"
    using none [THEN conjunct2, THEN conjunct2, THEN conjunct1] 4 by simp
  show ?thesis
    using example_resolves(2) example_resolves(3) 1 2 3 4 5 by (intro conjI)
qed

text \<open>
  Claim C3 as it is stated fails for a cluster that is the empty string: the response is
  handled without raising, the cluster is not \<open>None\<close>, and neither
  \<open>response.completed.aggregated_per_cluster\<close> nor
  \<open>response.completed.aggregated_per_application\<close> is incremented.
\<close>

theorem empty_cluster_omits_completed_pair:
  "fst (process_response example_constants example_resolve
          (Enabled (make_attributes example_constants empty_cluster_tags True)) traced_request
          \<lparr> status_code = 200 \<rparr> 6 9) = Inr \<lparr> status_code = 200 \<rparr>
   \<and> cluster empty_cluster_tags \<noteq> None
   \<and> ''response.completed.aggregated_per_cluster''
     \<notin> set (delta_counter_names (snd (process_response example_constants example_resolve
           (Enabled (make_attributes example_constants empty_cluster_tags True)) traced_request
           \<lparr> status_code = 200 \<rparr> 6 9)))
   \<and> ''response.completed.aggregated_per_application''
     \<notin> set (counter_names (snd (process_response example_constants example_resolve
           (Enabled (make_attributes example_constants empty_cluster_tags True)) traced_request
           \<lparr> status_code = 200 \<rparr> 6 9)))
   \<and> ''response.completed.aggregated_per_source''
     \<in> set (counter_names (snd (process_response example_constants example_resolve
           (Enabled (make_attributes example_constants empty_cluster_tags True)) traced_request
           \<lparr> status_code = 200 \<rparr> 6 9)))"
  by code_simp

text \<open>
  Claim C4. A response is an error iff its status is from 400 to 599, both included. For
  a path that matches no route \<open>process_response\<close> raises \<open>Resolver404\<close>, and for a request
  without a span it raises \<open>AttributeError\<close>, in both cases with no call made: no counter is
  incremented whatever the status. When the path resolves and the tracer holds a span,
  \<open>process_response\<close> returns the response, and the counters of the error path (the
  per-entity error counter, \<open>response.errors\<close> and the \<open>response.errors\<close> rollups that do
  not depend on shard or cluster) are incremented iff the status is in that range; the
  per-status rollups and \<open>response.completed.aggregated_per_source\<close> are incremented for
  every status, so the error path comes in addition to them; for a status outside the
  range every counter that is incremented is a per-status rollup or a
  \<open>response.completed\<close> counter.
\<close>

theorem error_path_iff_status_400_599:
  "is_error_status_code resp = (400 \<le> status_code resp \<and> status_code resp \<le> 599)
   \<and> (resolve (path_info req) = None \<longrightarrow>
        process_response c resolve (Enabled a) req resp now cpu = (Inl Resolver404, []))
   \<and> ((\<exists>v. resolve (path_info req) = Some v) \<and> \<not> has_span req \<longrightarrow>
        (\<exists>msg. process_response c resolve (Enabled a) req resp now cpu
                 = (Inl (AttributeError msg), [])))
   \<and> ((\<exists>v. resolve (path_info req) = Some v) \<and> has_span req \<longrightarrow>
        fst (process_response c resolve (Enabled a) req resp now cpu) = Inr resp
      \<and> ((get_metric_name_without_status (get_entity_name req) req
           \<in> set (counter_names (snd (process_response c resolve (Enabled a) req resp now cpu))))
          = (400 \<le> status_code resp \<and> status_code resp \<le> 599))
      \<and> ((''response.errors''
           \<in> set (counter_names (snd (process_response c resolve (Enabled a) req resp now cpu))))
          = (400 \<le> status_code resp \<and> status_code resp \<le> 599))
      \<and> ((''response.errors.aggregated_per_source''
           \<in> set (counter_names (snd (process_response c resolve (Enabled a) req resp now cpu))))
          = (400 \<le> status_code resp \<and> status_code resp \<le> 599))
      \<and> ((''response.errors.aggregated_per_service''
           \<in> set (delta_counter_names
                   (snd (process_response c resolve (Enabled a) req resp now cpu))))
          = (400 \<le> status_code resp \<and> status_code resp \<le> 599))
      \<and> ((''response.errors.aggregated_per_application''
           \<in> set (delta_counter_names
                   (snd (process_response c resolve (Enabled a) req resp now cpu))))
          = (400 \<le> status_code resp \<and> status_code resp \<le> 599))
      \<and> get_metric_name (get_entity_name req) req (Some resp) @ ''.cumulative''
           \<in> set (counter_names (snd (process_response c resolve (Enabled a) req resp now cpu)))
      \<and> get_metric_name (get_entity_name req) req (Some resp) @ ''.aggregated_per_service''
           \<in> set (delta_counter_names
                   (snd (process_response c resolve (Enabled a) req resp now cpu)))
      \<and> get_metric_name (get_entity_name req) req (Some resp) @ ''.aggregated_per_application''
           \<in> set (delta_counter_names
                   (snd (process_response c resolve (Enabled a) req resp now cpu)))
      \<and> ''response.completed.aggregated_per_source''
           \<in> set (counter_names (snd (process_response c resolve (Enabled a) req resp now cpu)))
      \<and> (\<not> (400 \<le> status_code resp \<and> status_code resp \<le> 599) \<longrightarrow>
          set (counter_names (snd (process_response c resolve (Enabled a) req resp now cpu)))
            \<subseteq> {get_metric_name (get_entity_name req) req (Some resp) @ ''.cumulative'',
                ''response.completed.aggregated_per_source'',
                ''response.completed.aggregated_per_service'',
                ''response.completed.aggregated_per_application''}
          \<and> set (delta_counter_names
                   (snd (process_response c resolve (Enabled a) req resp now cpu)))
            \<subseteq> {get_metric_name (get_entity_name req) req (Some resp)
                  @ ''.aggregated_per_shard'',
                get_metric_name (get_entity_name req) req (Some resp)
                  @ ''.aggregated_per_service'',
                get_metric_name (get_entity_name req) req (Some resp)
                  @ ''.aggregated_per_cluster'',
                get_metric_name (get_entity_name req) req (Some resp)
                  @ ''.aggregated_per_application'',
                ''response.completed.aggregated_per_shard'',
                ''response.completed.aggregated_per_cluster''}))"
  (is "_ \<and> _ \<and> _ \<and> (_ \<longrightarrow> ?P)")
proof -
  have status: "is_error_status_code resp
      = (400 \<le> status_code resp \<and> status_code resp \<le> 599)"
    by (simp add: is_error_status_code_def)
  have unmatched: "resolve (path_info req) = None \<longrightarrow>
        process_response c resolve (Enabled a) req resp now cpu = (Inl Resolver404, [])"
    using process_response_unmatched [where resolve = resolve and req = req] by blast
  have no_span: "(\<exists>v. resolve (path_info req) = Some v) \<and> \<not> has_span req \<longrightarrow>
        (\<exists>msg. process_response c resolve (Enabled a) req resp now cpu
                 = (Inl (AttributeError msg), []))"
    using process_response_no_span [where resolve = resolve and req = req] by blast
  have completes: ?P if rs: "resolve (path_info req) = Some v" and sp: "has_span req" for v
    unfolding delta_counter_names_process_response [where resolve = resolve and req = req,
        OF rs sp] counter_names_process_response [where resolve = resolve and req = req,
        OF rs sp] process_response_returns [where resolve = resolve and req = req, OF rs sp]
    by (simp add: fresh is_error_status_code_def) auto
  have last: "(\<exists>v. resolve (path_info req) = Some v) \<and> has_span req \<longrightarrow> ?P"
  proof (intro impI, elim conjE exE)
    fix v
    assume "resolve (path_info req) = Some v" and "has_span req"
    then show ?P by (rule completes)
  qed
  show ?thesis
    using status unmatched no_span last by (intro conjI)
qed

text \<open>
  Status 503, 399 and 600 with a span attached; status 503 without a span; status 404 for
  a path that matches no route.
\<close>

theorem error_path_iff_status_400_599_witness:
  "''response.errors''
     \<in> set (counter_names (snd (process_response example_constants example_resolve
          (Enabled (make_attributes example_constants beachshirts_tags True)) traced_request
          \<lparr> status_code = 503 \<rparr> 6 9)))
   \<and> ''response.make.GET.503.cumulative''
     \<in> set (counter_names (snd (process_response example_constants example_resolve
          (Enabled (make_attributes example_constants beachshirts_tags True)) traced_request
          \<lparr> status_code = 503 \<rparr> 6 9)))
   \<and> ''response.errors''
     \<notin> set (counter_names (snd (process_response example_constants example_resolve
          (Enabled (make_attributes example_constants beachshirts_tags True)) traced_request
          \<lparr> status_code = 399 \<rparr> 6 9)))
   \<and> ''response.errors''
     \<notin> set (counter_names (snd (process_response example_constants example_resolve
          (Enabled (make_attributes example_constants beachshirts_tags True)) traced_request
          \<lparr> status_code = 600 \<rparr> 6 9)))
   \<and> (\<exists>msg. process_response example_constants example_resolve
          (Enabled (make_attributes example_constants beachshirts_tags False)) make_request
          \<lparr> status_code = 503 \<rparr> 6 9 = (Inl (AttributeError msg), []))
   \<and> process_response example_constants example_resolve
          (Enabled (make_attributes example_constants beachshirts_tags True)) lost_request
          \<lparr> status_code = 404 \<rparr> 6 9 = (Inl Resolver404, [])"
proof -
  have yes: "(\<exists>v. example_resolve (path_info traced_request) = Some v)
      \<and> has_span traced_request"
    using example_resolves(2) example_resolves(3) by simp
  have no: "(\<exists>v. example_resolve (path_info make_request) = Some v)
      \<and> \<not> has_span make_request"
    using example_resolves(1) example_resolves(4) by simp
  note t = error_path_iff_status_400_599 [where resolve = example_resolve
      and c = example_constants and now = 6 and cpu = 9]
  note on = t [where req = traced_request
      and a = "make_attributes example_constants beachshirts_tags True"]
  note on503 = on [where resp = "\<lparr> status_code = 503 \<rparr>",
      THEN conjunct2, THEN conjunct2, THEN conjunct2, THEN mp, OF yes]
  note on399 = on [where resp = "\<lparr> status_code = 399 \<rparr>",
      THEN conjunct2, THEN conjunct2, THEN conjunct2, THEN mp, OF yes]
  note on600 = on [where resp = "\<lparr> status_code = 600 \<rparr>",
      THEN conjunct2, THEN conjunct2, THEN conjunct2, THEN mp, OF yes]
  have 1: "''response.errors''
     \<in> set (counter_names (snd (process_response example_constants example_resolve
          (Enabled (make_attributes example_constants beachshirts_tags True)) traced_request
          \<lparr> status_code = 503 \<rparr> 6 9)))"
    using on503 [THEN conjunct2, THEN conjunct2, THEN conjunct1] by simp
  have 2: "''response.make.GET.503.cumulative''
     \<in> set (counter_names (snd (process_response example_constants example_resolve
          (Enabled (make_attributes example_constants beachshirts_tags True)) traced_request
          \<lparr> status_code = 503 \<rparr> 6 9)))"
    using on503 [THEN conjunct2, THEN conjunct2, THEN conjunct2, THEN conjunct2,
        THEN conjunct2, THEN conjunct2, THEN conjunct1, unfolded example_keys]
    by simp
  have 3: "''response.errors''
     \<notin> set (counter_names (snd (process_response example_constants example_resolve
          (Enabled (make_attributes example_constants beachshirts_tags True)) traced_request
          \<lparr> status_code = 399 \<rparr> 6 9)))"
    using on399 [THEN conjunct2, THEN conjunct2, THEN conjunct1] by simp
  have 4: "''response.errors''
     \<notin> set (counter_names (snd (process_response example_constants example_resolve
          (Enabled (make_attributes example_constants beachshirts_tags True)) traced_request
          \<lparr> status_code = 600 \<rparr> 6 9)))"
    using on600 [THEN conjunct2, THEN conjunct2, THEN conjunct1] by simp
  have 5: "\<exists>msg. process_response example_constants example_resolve
          (Enabled (make_attributes example_constants beachshirts_tags False)) make_request
          \<lparr> status_code = 503 \<rparr> 6 9 = (Inl (AttributeError msg), [])"
    by (rule t [where req = make_request
          and a = "make_attributes example_constants beachshirts_tags False"
          and resp = "\<lparr> status_code = 503 \<rparr>",
          THEN conjunct2, THEN conjunct2, THEN conjunct1, THEN mp, OF no])
  have 6: "process_response example_constants example_resolve
          (Enabled (make_attributes example_constants beachshirts_tags True)) lost_request
          \<lparr> status_code = 404 \<rparr> 6 9 = (Inl Resolver404, [])"
    by (rule t [where req = lost_request
          and a = "make_attributes example_constants beachshirts_tags True"
          and resp = "\<lparr> status_code = 404 \<rparr>",
          THEN conjunct2, THEN conjunct1, THEN mp, OF example_resolves(5)])
  show ?thesis
    using 1 2 3 4 5 6 by (intro conjI)
qed

section \<open>The absent cluster and shard\<close>

text \<open>
  Claim C6, as amended. When the sentinel null-tag value is a non-empty string, an absent
  cluster (shard) appears in \<open>get_as_list\<close> as the cluster (shard) key bound to the
  sentinel, and the tag maps of \<open>process_response\<close> do the same: every map whose scope
  includes the cluster (shard) binds the key \<open>cluster\<close> (\<open>shard\<close>) to the sentinel, and only
  the maps of the scopes that never include the dimension lack the key. For a response that
  \<open>process_response\<close> handles without raising, maps that carry the sentinel are used by
  counters that are incremented for every such response.
\<close>

theorem absent_dimension_carries_sentinel:
  assumes "NULL_TAG_VAL c \<noteq> []"
      and "a = make_attributes c tgs tr"
      and "resolve (path_info req) = Some v"
      and "has_span req"
      and "m = func_module v"
      and "f = func_name v"
  shows "(cluster tgs = None \<longrightarrow>
            (CLUSTER_TAG_KEY c, NULL_TAG_VAL c) \<in> set (get_as_list c tgs)
          \<and> (\<forall>M \<in> {complete_tags_map c a m f, aggregated_per_shard_map c a m f,
                    overall_aggregated_per_source_map c a, overall_aggregated_per_shard_map c a,
                    aggregated_per_service_map c a m f, overall_aggregated_per_service_map c a,
                    aggregated_per_cluster_map c a m f, overall_aggregated_per_cluster_map c a}.
                map_of M ''cluster'' = Some (NULL_TAG_VAL c))
          \<and> (\<forall>M \<in> {aggregated_per_application_map c m f,
                    overall_aggregated_per_application_map c}.
                map_of M ''cluster'' = None))
       \<and> (shard tgs = None \<longrightarrow>
            (SHARD_TAG_KEY c, NULL_TAG_VAL c) \<in> set (get_as_list c tgs)
          \<and> (\<forall>M \<in> {complete_tags_map c a m f, aggregated_per_shard_map c a m f,
                    overall_aggregated_per_source_map c a, overall_aggregated_per_shard_map c a}.
                map_of M ''shard'' = Some (NULL_TAG_VAL c))
          \<and> (\<forall>M \<in> {aggregated_per_service_map c a m f, overall_aggregated_per_service_map c a,
                    aggregated_per_cluster_map c a m f, overall_aggregated_per_cluster_map c a,
                    aggregated_per_application_map c m f,
                    overall_aggregated_per_application_map c}.
                map_of M ''shard'' = None))
       \<and> fst (process_response c resolve (Enabled a) req resp now cpu) = Inr resp
       \<and> CounterInc (get_metric_name (get_entity_name req) req (Some resp) @ ''.cumulative'')
            (complete_tags_map c a m f)
           \<in> set (snd (process_response c resolve (Enabled a) req resp now cpu))
       \<and> DeltaCounterInc
            (get_metric_name (get_entity_name req) req (Some resp) @ ''.aggregated_per_service'')
            (aggregated_per_service_map c a m f)
           \<in> set (snd (process_response c resolve (Enabled a) req resp now cpu))
       \<and> CounterInc ''response.completed.aggregated_per_source''
            (overall_aggregated_per_source_map c a)
           \<in> set (snd (process_response c resolve (Enabled a) req resp now cpu))"
proof -
  have cl: "cluster tgs = None \<Longrightarrow> chars c (CLUSTER a) = NULL_TAG_VAL c"
    by (simp add: assms(2) make_attributes_def or_null_tag_def)
  have sh: "shard tgs = None \<Longrightarrow> chars c (SHARD a) = NULL_TAG_VAL c"
    by (simp add: assms(2) make_attributes_def or_null_tag_def)
  have 1: "cluster tgs = None \<longrightarrow>
            (CLUSTER_TAG_KEY c, NULL_TAG_VAL c) \<in> set (get_as_list c tgs)
          \<and> (\<forall>M \<in> {complete_tags_map c a m f, aggregated_per_shard_map c a m f,
                    overall_aggregated_per_source_map c a, overall_aggregated_per_shard_map c a,
                    aggregated_per_service_map c a m f, overall_aggregated_per_service_map c a,
                    aggregated_per_cluster_map c a m f, overall_aggregated_per_cluster_map c a}.
                map_of M ''cluster'' = Some (NULL_TAG_VAL c))
          \<and> (\<forall>M \<in> {aggregated_per_application_map c m f,
                    overall_aggregated_per_application_map c}.
                map_of M ''cluster'' = None)"
    using assms(1) cl
    by (simp add: tag_maps get_tags_map_def truthy_def str_of_def get_as_list_def
        or_null_tag_def)
  have 2: "shard tgs = None \<longrightarrow>
            (SHARD_TAG_KEY c, NULL_TAG_VAL c) \<in> set (get_as_list c tgs)
          \<and> (\<forall>M \<in> {complete_tags_map c a m f, aggregated_per_shard_map c a m f,
                    overall_aggregated_per_source_map c a, overall_aggregated_per_shard_map c a}.
                map_of M ''shard'' = Some (NULL_TAG_VAL c))
          \<and> (\<forall>M \<in> {aggregated_per_service_map c a m f, overall_aggregated_per_service_map c a,
                    aggregated_per_cluster_map c a m f, overall_aggregated_per_cluster_map c a,
                    aggregated_per_application_map c m f,
                    overall_aggregated_per_application_map c}.
                map_of M ''shard'' = None)"
    using assms(1) sh
    by (simp add: tag_maps get_tags_map_def truthy_def str_of_def get_as_list_def
        or_null_tag_def)
  have 0: "fst (process_response c resolve (Enabled a) req resp now cpu) = Inr resp"
    by (rule process_response_returns [where resolve = resolve and req = req,
          OF assms(3) assms(4)])
  have 3: "CounterInc (get_metric_name (get_entity_name req) req (Some resp) @ ''.cumulative'')
            (complete_tags_map c a m f)
           \<in> set (snd (process_response c resolve (Enabled a) req resp now cpu))"
    by (simp add: process_response_def MIDDLEWARE_ENABLED_def Let_def assms(3,4,5,6))
  have 4: "DeltaCounterInc
            (get_metric_name (get_entity_name req) req (Some resp) @ ''.aggregated_per_service'')
            (aggregated_per_service_map c a m f)
           \<in> set (snd (process_response c resolve (Enabled a) req resp now cpu))"
    by (simp add: process_response_def MIDDLEWARE_ENABLED_def Let_def assms(3,4,5,6))
  have 5: "CounterInc ''response.completed.aggregated_per_source''
            (overall_aggregated_per_source_map c a)
           \<in> set (snd (process_response c resolve (Enabled a) req resp now cpu))"
    by (simp add: process_response_def MIDDLEWARE_ENABLED_def Let_def assms(3,4))
  show ?thesis
    using 0 1 2 3 4 5 by blast
qed

theorem absent_dimension_carries_sentinel_witness:
  "NULL_TAG_VAL example_constants \<noteq> []
   \<and> example_resolve (path_info traced_request) = Some make_view \<and> has_span traced_request
   \<and> (SHARD_TAG_KEY example_constants, NULL_TAG_VAL example_constants)
       \<in> set (get_as_list example_constants beachshirts_tags)
   \<and> map_of (overall_aggregated_per_source_map example_constants
               (make_attributes example_constants beachshirts_tags True)) ''shard''
       = Some (NULL_TAG_VAL example_constants)
   \<and> map_of (aggregated_per_service_map example_constants
               (make_attributes example_constants beachshirts_tags True)
               (func_module make_view) (func_name make_view)) ''cluster''
       = Some (NULL_TAG_VAL example_constants)
   \<and> CounterInc ''response.completed.aggregated_per_source''
        (overall_aggregated_per_source_map example_constants
           (make_attributes example_constants beachshirts_tags True))
       \<in> set (snd (process_response example_constants example_resolve
             (Enabled (make_attributes example_constants beachshirts_tags True)) traced_request
             \<lparr> status_code = 200 \<rparr> 6 9))"
proof -
  have h: "NULL_TAG_VAL example_constants \<noteq> []"
    by (simp add: example_constants_def)
  have n: "cluster beachshirts_tags = None" "shard beachshirts_tags = None"
    by (simp_all add: beachshirts_tags_def)
  note t = absent_dimension_carries_sentinel [where resolve = example_resolve
      and req = traced_request, OF h refl example_resolves(2) example_resolves(3) refl refl,
      where tgs = beachshirts_tags and tr = True
      and resp = "\<lparr> status_code = 200 \<rparr>" and now = 6 and cpu = 9]
  note by_cluster = t [THEN conjunct1, THEN mp, OF n(1)]
  note by_shard = t [THEN conjunct2, THEN conjunct1, THEN mp, OF n(2)]
  have 1: "(SHARD_TAG_KEY example_constants, NULL_TAG_VAL example_constants)
       \<in> set (get_as_list example_constants beachshirts_tags)"
    by (rule by_shard [THEN conjunct1])
  have 2: "map_of (overall_aggregated_per_source_map example_constants
               (make_attributes example_constants beachshirts_tags True)) ''shard''
       = Some (NULL_TAG_VAL example_constants)"
    using by_shard [THEN conjunct2, THEN conjunct1] by simp
  have 3: "map_of (aggregated_per_service_map example_constants
               (make_attributes example_constants beachshirts_tags True)
               (func_module make_view) (func_name make_view)) ''cluster''
       = Some (NULL_TAG_VAL example_constants)"
    using by_cluster [THEN conjunct2, THEN conjunct1] by simp
  have 4: "CounterInc ''response.completed.aggregated_per_source''
        (overall_aggregated_per_source_map example_constants
           (make_attributes example_constants beachshirts_tags True))
       \<in> set (snd (process_response example_constants example_resolve
             (Enabled (make_attributes example_constants beachshirts_tags True)) traced_request
             \<lparr> status_code = 200 \<rparr> 6 9))"
    by (rule t [THEN conjunct2, THEN conjunct2, THEN conjunct2, THEN conjunct2,
          THEN conjunct2])
  show ?thesis
    using h example_resolves(2) example_resolves(3) 1 2 3 4 by (intro conjI)
qed

text \<open>
  Claim C6 as it is stated fails: with no cluster and no shard, for a response handled
  without raising, \<open>response.completed.aggregated_per_source\<close> is incremented under tags
  that bind \<open>cluster\<close> and \<open>shard\<close> to the sentinel, and the per-service rollup under tags
  that bind \<open>cluster\<close> to it.
\<close>

theorem absent_dimension_tag_is_not_skipped:
  "fst (process_response example_constants example_resolve
          (Enabled (make_attributes example_constants beachshirts_tags True)) traced_request
          \<lparr> status_code = 200 \<rparr> 6 9) = Inr \<lparr> status_code = 200 \<rparr>
   \<and> shard beachshirts_tags = None \<and> cluster beachshirts_tags = None
   \<and> CounterInc ''response.completed.aggregated_per_source''
       [(''cluster'', ''none''), (''service'', ''styling''), (''shard'', ''none'')]
     \<in> set (snd (process_response example_constants example_resolve
           (Enabled (make_attributes example_constants beachshirts_tags True)) traced_request
           \<lparr> status_code = 200 \<rparr> 6 9))
   \<and> DeltaCounterInc ''response.make.GET.200.aggregated_per_service''
       [(''cluster'', ''none''), (''service'', ''styling''),
        (''django.resource.module'', ''shop.views''), (''django.resource.func'', ''make''),
        (''source'', ''wavefront-provided'')]
     \<in> set (snd (process_response example_constants example_resolve
           (Enabled (make_attributes example_constants beachshirts_tags True)) traced_request
           \<lparr> status_code = 200 \<rparr> 6 9))"
  by code_simp

end
